theory Spec2Isabelle
  imports Main "HOL-Library.Sublist" "HOL-Library.Word"
begin

section \<open>Values, documents and Python dictionaries\<close>

text \<open>
  The service (\<^verbatim>\<open>src/backend/main.py\<close>) is a set of FastAPI handlers over three MongoDB
  collections, \<^verbatim>\<open>user\<close>, \<open>resource\<close> and \<open>activity\<close>. Every handler works on Python
  dictionaries, so the embedding has one type of values, the ones a JSON body or a stored
  document can hold, and a dictionary is an association list in insertion order. A
  Python \<^verbatim>\<open>float\<close> is held as the 64 bits of its IEEE 754 double.

  A \<open>datetime\<close> has the fields of Python's \<^verbatim>\<open>datetime\<close>; an ObjectId is held as its
  24 lower-case hexadecimal digits, which is what \<^verbatim>\<open>str\<close> prints.
\<close>

datatype datetime = Datetime nat nat nat nat nat nat nat

datatype bson =
    BNull
  | BBool bool
  | BInt int
  | BFloat "64 word"
  | BStr string
  | BDate datetime
  | BOid string
  | BList "bson list"
  | BDoc "(string \<times> bson) list"

type_synonym doc = "(string \<times> bson) list"

text \<open>
  An exception that leaves a handler. \<open>HTTPException\<close> is the one the handlers raise
  themselves; \<open>Unhandled\<close> is any other exception class, named, which the framework
  turns into status 500; \<open>Unmodelled\<close> marks an input on which this embedding does not
  say what the program does.
\<close>

datatype error =
    HTTPException nat string
  | Unhandled string
  | Unmodelled string

fun year :: "datetime \<Rightarrow> nat" where
  "year (Datetime y mo d h mi s us) = y"

fun month :: "datetime \<Rightarrow> nat" where
  "month (Datetime y mo d h mi s us) = mo"

fun datetime_fields :: "datetime \<Rightarrow> nat list" where
  "datetime_fields (Datetime y mo d h mi s us) = [y, mo, d, h, mi, s, us]"

text \<open>Datetimes compare field by field, most significant first.\<close>

fun lex_le :: "nat list \<Rightarrow> nat list \<Rightarrow> bool" where
  "lex_le [] ys = True"
| "lex_le (x # xs) [] = False"
| "lex_le (x # xs) (y # ys) = (x < y \<or> (x = y \<and> lex_le xs ys))"

definition datetime_le :: "datetime \<Rightarrow> datetime \<Rightarrow> bool" where
  "datetime_le a b = lex_le (datetime_fields a) (datetime_fields b)"

text \<open>\<^verbatim>\<open>d.get(k)\<close>: the value, or \<^verbatim>\<open>None\<close>.\<close>

definition py_get :: "doc \<Rightarrow> string \<Rightarrow> bson" where
  "py_get d k = (case map_of d k of None \<Rightarrow> BNull | Some v \<Rightarrow> v)"

text \<open>\<^verbatim>\<open>d.get(k, default)\<close>.\<close>

definition py_get_default :: "doc \<Rightarrow> string \<Rightarrow> bson \<Rightarrow> bson" where
  "py_get_default d k dflt = (case map_of d k of None \<Rightarrow> dflt | Some v \<Rightarrow> v)"

text \<open>\<^verbatim>\<open>d[k] = v\<close>: an existing key keeps its place, a new one goes last.\<close>

fun dict_set :: "string \<Rightarrow> bson \<Rightarrow> doc \<Rightarrow> doc" where
  "dict_set k v [] = [(k, v)]"
| "dict_set k v ((k', v') # d) =
     (if k' = k then (k, v) # d else (k', v') # dict_set k v d)"

text \<open>\<^verbatim>\<open>d.update(e)\<close>: every item of \<open>e\<close> is stored in \<open>d\<close>, in order.\<close>

fun py_update :: "doc \<Rightarrow> doc \<Rightarrow> doc" where
  "py_update d [] = d"
| "py_update d ((k, v) # e) = py_update (dict_set k v d) e"

text \<open>
  \<^verbatim>\<open>x in c\<close>: membership in a list, substring of a string, key of a dictionary;
  \<^verbatim>\<open>TypeError\<close> on a container that is not iterable, and on a non-string searched in a
  string.
\<close>

fun py_in :: "bson \<Rightarrow> bson \<Rightarrow> error + bool" where
  "py_in x (BList xs) = Inr (x \<in> set xs)"
| "py_in (BStr t) (BStr s) = Inr (sublist t s)"
| "py_in x (BStr s) = Inl (Unhandled ''TypeError'')"
| "py_in (BStr k) (BDoc d) = Inr (k \<in> fst ` set d)"
| "py_in x (BDoc d) = Inr False"
| "py_in x c = Inl (Unhandled ''TypeError'')"

subsection \<open>ObjectId\<close>

text \<open>
  \<^verbatim>\<open>bson.ObjectId(s)\<close> raises \<^verbatim>\<open>InvalidId\<close> on a string that is not 24 characters
  long, and otherwise hands the string to \<^verbatim>\<open>bytes.fromhex\<close>, which reads pairs of
  hexadecimal digits, in either case, skips ASCII white space between the pairs, and
  raises on anything else. On 24 hexadecimal digits the result is the ObjectId of these
  12 bytes; two ObjectIds are equal when their bytes are, so the value is kept in lower
  case. A string of 24 characters with white space in it is accepted too and gives an
  ObjectId of fewer than 12 bytes, on which the model does not say what the driver does.
\<close>

definition is_hex :: "char \<Rightarrow> bool" where
  "is_hex c = (c \<in> set ''0123456789abcdefABCDEF'')"

definition lower_hex :: "char \<Rightarrow> char" where
  "lower_hex c =
     (if c = CHR ''A'' then CHR ''a'' else if c = CHR ''B'' then CHR ''b''
      else if c = CHR ''C'' then CHR ''c'' else if c = CHR ''D'' then CHR ''d''
      else if c = CHR ''E'' then CHR ''e'' else if c = CHR ''F'' then CHR ''f''
      else c)"

definition is_space :: "char \<Rightarrow> bool" where
  "is_space c = (c \<in> set [CHR '' '', CHR 0x09, CHR 0x0A, CHR 0x0B, CHR 0x0C, CHR 0x0D])"

fun fromhex_accepts :: "string \<Rightarrow> bool" where
  "fromhex_accepts [] = True"
| "fromhex_accepts [c] = is_space c"
| "fromhex_accepts (c # d # s) =
     (if is_space c then fromhex_accepts (d # s) else is_hex c \<and> is_hex d \<and> fromhex_accepts s)"

definition ObjectId :: "string \<Rightarrow> error + string" where
  "ObjectId s =
     (if length s = 24 \<and> list_all is_hex s then Inr (map lower_hex s)
      else if length s = 24 \<and> fromhex_accepts s
      then Inl (Unmodelled ''ObjectId of fewer than 12 bytes'')
      else Inl (Unhandled ''InvalidId''))"

text \<open>The strings \<^verbatim>\<open>str\<close> prints for an ObjectId: what the driver generates.\<close>

definition is_oid :: "string \<Rightarrow> bool" where
  "is_oid s = (length s = 24 \<and> list_all (\<lambda>c. c \<in> set ''0123456789abcdef'') s)"

section \<open>The database\<close>

text \<open>
  \<^verbatim>\<open>db\<close> (\<^verbatim>\<open>src/backend/database.py\<close>) is the handle on the MongoDB database. The
  model keeps the documents of each collection in insertion order, and a log of the
  calls made on the driver, so that a statement can say which collections a request
  has touched.
\<close>

datatype coll = UserColl | ResourceColl | ActivityColl

datatype db_op = FindOne | Find | InsertOne | UpdateOne | DeleteOne | Aggregate | CountDocuments

record db =
  user_docs :: "doc list"
  resource_docs :: "doc list"
  activity_docs :: "doc list"
  calls :: "(coll \<times> db_op) list"

fun docs_of :: "coll \<Rightarrow> db \<Rightarrow> doc list" where
  "docs_of UserColl w = user_docs w"
| "docs_of ResourceColl w = resource_docs w"
| "docs_of ActivityColl w = activity_docs w"

fun put_docs :: "coll \<Rightarrow> doc list \<Rightarrow> db \<Rightarrow> db" where
  "put_docs UserColl ds w = w\<lparr>user_docs := ds\<rparr>"
| "put_docs ResourceColl ds w = w\<lparr>resource_docs := ds\<rparr>"
| "put_docs ActivityColl ds w = w\<lparr>activity_docs := ds\<rparr>"

definition called :: "coll \<Rightarrow> db_op \<Rightarrow> db \<Rightarrow> db" where
  "called c op w = w\<lparr>calls := calls w @ [(c, op)]\<rparr>"

text \<open>
  The query documents the handlers build themselves are equalities on top-level fields:
  the stored value is equal to the queried one, and a queried \<^verbatim>\<open>null\<close> also matches a
  document without the field. None of the fields the handlers query holds an array
  (MongoDB would also match an array that holds the queried value); the model compares a
  stored array as a whole.
\<close>

definition field_matches :: "doc \<Rightarrow> string \<Rightarrow> bson \<Rightarrow> bool" where
  "field_matches d k v = (case map_of d k of None \<Rightarrow> v = BNull | Some fv \<Rightarrow> fv = v)"

definition matches :: "doc \<Rightarrow> doc \<Rightarrow> bool" where
  "matches q d = list_all (\<lambda>(k, v). field_matches d k v) q"

text \<open>
  What the driver does with a document it is given, before anything is sent. It encodes
  the document to BSON, in the order of the fields, and raises \<^verbatim>\<open>OverflowError\<close> on
  an integer outside 64 bits and \<^verbatim>\<open>InvalidDocument\<close> on a key that holds the NUL
  character. What the database then holds, and gives back, is the encoded form: a date
  keeps its milliseconds and loses the microseconds below them; every other value is
  kept as it is.
\<close>

fun first_error :: "error option list \<Rightarrow> error option" where
  "first_error [] = None"
| "first_error (None # es) = first_error es"
| "first_error (Some e # es) = Some e"

primrec encode_error :: "bson \<Rightarrow> error option" where
  "encode_error BNull = None"
| "encode_error (BBool b) = None"
| "encode_error (BInt i) =
     (if - (2 ^ 63) \<le> i \<and> i < 2 ^ 63 then None else Some (Unhandled ''OverflowError''))"
| "encode_error (BFloat f) = None"
| "encode_error (BStr s) = None"
| "encode_error (BDate t) = None"
| "encode_error (BOid i) = None"
| "encode_error (BList xs) = first_error (map encode_error xs)"
| "encode_error (BDoc d) =
     first_error
       (map (\<lambda>ke. if CHR 0x00 \<in> set (fst ke) then Some (Unhandled ''InvalidDocument'')
                   else snd ke)
          (map (map_prod id encode_error) d))"

fun to_millis :: "datetime \<Rightarrow> datetime" where
  "to_millis (Datetime y mo d h mi s us) = Datetime y mo d h mi s (us - us mod 1000)"

primrec stored_form :: "bson \<Rightarrow> bson" where
  "stored_form BNull = BNull"
| "stored_form (BBool b) = BBool b"
| "stored_form (BInt i) = BInt i"
| "stored_form (BFloat f) = BFloat f"
| "stored_form (BStr s) = BStr s"
| "stored_form (BDate t) = BDate (to_millis t)"
| "stored_form (BOid i) = BOid i"
| "stored_form (BList xs) = BList (map stored_form xs)"
| "stored_form (BDoc d) = BDoc (map (map_prod id stored_form) d)"

definition encode :: "doc \<Rightarrow> error + doc" where
  "encode d =
     (case encode_error (BDoc d) of
        Some e \<Rightarrow> Inl e
      | None \<Rightarrow> Inr (map (map_prod id stored_form) d))"

text \<open>\<^verbatim>\<open>collection.find_one(q)\<close>: the first document that matches, or \<^verbatim>\<open>None\<close>.\<close>

definition find_one :: "coll \<Rightarrow> doc \<Rightarrow> db \<Rightarrow> doc option \<times> db" where
  "find_one c q w = (find (matches q) (docs_of c w), called c FindOne w)"

text \<open>
  \<^verbatim>\<open>list(collection.find(q).skip(s).limit(l))\<close>. \<^verbatim>\<open>Cursor.skip\<close> raises
  \<^verbatim>\<open>ValueError\<close> on a negative number, before anything is sent; a limit of 0 is no
  limit, and a negative limit is its absolute value. The query document comes from the
  request here, and is encoded when the cursor is read.
\<close>

definition find_skip_limit :: "coll \<Rightarrow> doc \<Rightarrow> int \<Rightarrow> int \<Rightarrow> db \<Rightarrow> (error + doc list) \<times> db" where
  "find_skip_limit c q s l w =
     (if s < 0 then (Inl (Unhandled ''ValueError''), w)
      else
        (case encode q of
           Inl e \<Rightarrow> (Inl e, w)
         | Inr q' \<Rightarrow>
             let ms = drop (nat s) (filter (matches q') (docs_of c w))
             in (Inr (if l = 0 then ms else take (nat \<bar>l\<bar>) ms), called c Find w)))"

text \<open>
  \<^verbatim>\<open>collection.insert_one(d)\<close>. The driver adds an \<^verbatim>\<open>_id\<close>, a new ObjectId, to a
  document that has none: \<open>new_id\<close> is the one it picks. The document is encoded; a
  document that cannot be is not sent. The collection's unique index on \<^verbatim>\<open>_id\<close>
  refuses a second document with the same one. The result is the \<^verbatim>\<open>inserted_id\<close>.
\<close>

definition insert_one :: "coll \<Rightarrow> doc \<Rightarrow> string \<Rightarrow> db \<Rightarrow> (error + bson) \<times> db" where
  "insert_one c d new_id w =
     (let d' = (if map_of d ''_id'' = None then d @ [(''_id'', BOid new_id)] else d)
      in case encode d' of
           Inl e \<Rightarrow> (Inl e, w)
         | Inr e' \<Rightarrow>
             let w' = called c InsertOne w
             in if list_ex (\<lambda>e. map_of e ''_id'' = map_of e' ''_id'') (docs_of c w)
                then (Inl (Unhandled ''DuplicateKeyError''), w')
                else (Inr (py_get d' ''_id''), put_docs c (docs_of c w @ [e']) w'))"

text \<open>The first document that satisfies \<open>P\<close> is replaced by its image.\<close>

fun update_first :: "('a \<Rightarrow> bool) \<Rightarrow> ('a \<Rightarrow> 'a) \<Rightarrow> 'a list \<Rightarrow> 'a list" where
  "update_first P f [] = []"
| "update_first P f (x # xs) = (if P x then f x # xs else x # update_first P f xs)"

fun remove_first :: "('a \<Rightarrow> bool) \<Rightarrow> 'a list \<Rightarrow> 'a list" where
  "remove_first P [] = []"
| "remove_first P (x # xs) = (if P x then xs else x # remove_first P xs)"

text \<open>
  \<^verbatim>\<open>collection.update_one(q, {"$set": updates})\<close>: the update is encoded, and every
  field of \<open>updates\<close> is stored in the first document that matches. The result is the
  \<^verbatim>\<open>matched_count\<close>.
\<close>

definition update_one_set :: "coll \<Rightarrow> doc \<Rightarrow> doc \<Rightarrow> db \<Rightarrow> (error + nat) \<times> db" where
  "update_one_set c q updates w =
     (case encode updates of
        Inl e \<Rightarrow> (Inl e, w)
      | Inr updates' \<Rightarrow>
          let ds = docs_of c w; w' = called c UpdateOne w
          in case find (matches q) ds of
               None \<Rightarrow> (Inr 0, w')
             | Some d \<Rightarrow>
                 (Inr 1,
                  put_docs c (update_first (matches q) (\<lambda>d. py_update d updates') ds) w'))"

text \<open>
  \<^verbatim>\<open>$addToSet\<close> with \<^verbatim>\<open>$each\<close>: each value is appended to the array unless the array
  holds it already. The values the handler passes are strings, which are stored as they
  are.
\<close>

fun add_each :: "bson list \<Rightarrow> bson list \<Rightarrow> bson list" where
  "add_each xs [] = xs"
| "add_each xs (v # vs) = add_each (if v \<in> set xs then xs else xs @ [v]) vs"

text \<open>
  On a document without the field the array is created; on a field that is not an array
  the server refuses the update (\<^verbatim>\<open>WriteError\<close>).
\<close>

definition add_to_set :: "string \<Rightarrow> bson list \<Rightarrow> doc \<Rightarrow> doc option" where
  "add_to_set k vs d =
     (case map_of d k of
        None \<Rightarrow> Some (dict_set k (BList (add_each [] vs)) d)
      | Some (BList xs) \<Rightarrow> Some (dict_set k (BList (add_each xs vs)) d)
      | Some _ \<Rightarrow> None)"

text \<open>
  \<^verbatim>\<open>collection.update_one(q, {"$addToSet": {k: {"$each": vs}}})\<close>, with the
  \<^verbatim>\<open>matched_count\<close> as result.
\<close>

definition update_one_addToSet ::
  "coll \<Rightarrow> doc \<Rightarrow> string \<Rightarrow> bson list \<Rightarrow> db \<Rightarrow> (error + nat) \<times> db" where
  "update_one_addToSet c q k vs w =
     (let ds = docs_of c w; w' = called c UpdateOne w
      in case find (matches q) ds of
           None \<Rightarrow> (Inr 0, w')
         | Some d \<Rightarrow>
             (case add_to_set k vs d of
                None \<Rightarrow> (Inl (Unhandled ''WriteError''), w')
              | Some d' \<Rightarrow> (Inr 1, put_docs c (update_first (matches q) (\<lambda>d. d') ds) w')))"

text \<open>\<^verbatim>\<open>collection.delete_one(q)\<close>, with the \<^verbatim>\<open>deleted_count\<close> as result.\<close>

definition delete_one :: "coll \<Rightarrow> doc \<Rightarrow> db \<Rightarrow> nat \<times> db" where
  "delete_one c q w =
     (let ds = docs_of c w; w' = called c DeleteOne w
      in case find (matches q) ds of
           None \<Rightarrow> (0, w')
         | Some d \<Rightarrow> (1, put_docs c (remove_first (matches q) ds) w'))"

text \<open>\<^verbatim>\<open>collection.count_documents(q)\<close>.\<close>

definition count_documents :: "coll \<Rightarrow> doc \<Rightarrow> db \<Rightarrow> nat \<times> db" where
  "count_documents c q w = (length (filter (matches q) (docs_of c w)), called c CountDocuments w)"

text \<open>
  The pipeline of \<^verbatim>\<open>system_analytics\<close>: \<^verbatim>\<open>$match\<close> on the system and on
  \<^verbatim>\<open>created_at >= since\<close>, \<^verbatim>\<open>$group\<close> by the month of \<^verbatim>\<open>created_at\<close> and the
  type, counting, and \<^verbatim>\<open>$sort\<close> by month. A comparison holds between values of one
  type only, so a \<^verbatim>\<open>created_at\<close> that is not a date does not match. The server does not
  fix the order of groups of one month; the model keeps them in order of first appearance.
\<close>

definition gte_since :: "datetime \<Rightarrow> doc \<Rightarrow> bool" where
  "gte_since since d =
     (case map_of d ''created_at'' of
        Some (BDate t) \<Rightarrow> datetime_le since t
      | _ \<Rightarrow> False)"

text \<open>The group key of a document; \<^verbatim>\<open>$month\<close> fails on a value that is not a date.\<close>

definition group_key :: "doc \<Rightarrow> error + nat \<times> bson option" where
  "group_key d =
     (case map_of d ''created_at'' of
        Some (BDate t) \<Rightarrow> Inr (month t, map_of d ''type'')
      | _ \<Rightarrow> Inl (Unhandled ''OperationFailure''))"

fun bump :: "'k \<Rightarrow> ('k \<times> nat) list \<Rightarrow> ('k \<times> nat) list" where
  "bump k [] = [(k, 1)]"
| "bump k ((k', n) # gs) = (if k' = k then (k', Suc n) # gs else (k', n) # bump k gs)"

fun group_count :: "doc list \<Rightarrow> ((nat \<times> bson option) \<times> nat) list
    \<Rightarrow> error + ((nat \<times> bson option) \<times> nat) list" where
  "group_count [] gs = Inr gs"
| "group_count (d # ds) gs =
     (case group_key d of Inl e \<Rightarrow> Inl e | Inr k \<Rightarrow> group_count ds (bump k gs))"

definition group_doc :: "(nat \<times> bson option) \<times> nat \<Rightarrow> doc" where
  "group_doc g =
     (case g of ((m, t), n) \<Rightarrow>
        [(''_id'', BDoc ((''month'', BInt (int m))
                         # (case t of None \<Rightarrow> [] | Some v \<Rightarrow> [(''type'', v)]))),
         (''count'', BInt (int n))])"

definition aggregate_by_month :: "coll \<Rightarrow> string \<Rightarrow> datetime \<Rightarrow> db \<Rightarrow> (error + doc list) \<times> db" where
  "aggregate_by_month c system since w =
     (let ms = filter (\<lambda>d. field_matches d ''system'' (BStr system) \<and> gte_since since d)
                 (docs_of c w)
      in (case group_count ms [] of
            Inl e \<Rightarrow> Inl e
          | Inr gs \<Rightarrow> Inr (map group_doc (sort_key (\<lambda>g. fst (fst g)) gs)),
          called c Aggregate w))"

section \<open>External collaborators\<close>

text \<open>
  The libraries the handlers call are parameters of the model: \<^verbatim>\<open>jose.jwt\<close>
  (\<open>jwt_encode\<close>, and \<open>jwt_decode\<close>, which is \<open>None\<close> where \<^verbatim>\<open>jwt.decode\<close> raises
  \<^verbatim>\<open>JWTError\<close>; it checks the expiry against the time of the call), \<^verbatim>\<open>passlib\<close>
  (\<open>pwd_hash\<close>, with the salt it draws, and \<open>pwd_verify\<close>) and the addition of a number
  of minutes to a \<open>datetime\<close>. Both functions of \<^verbatim>\<open>passlib\<close> can raise instead of
  returning: on a password that holds the NUL character or is too long, and
  \<open>pwd_verify\<close> also on a stored value it cannot identify as a hash.
\<close>

record ext =
  jwt_encode :: "doc \<Rightarrow> string"
  jwt_decode :: "datetime \<Rightarrow> string \<Rightarrow> doc option"
  pwd_hash :: "string \<Rightarrow> string \<Rightarrow> error + string"
  pwd_verify :: "string \<Rightarrow> bson \<Rightarrow> error + bool"
  plus_minutes :: "datetime \<Rightarrow> nat \<Rightarrow> datetime"

section \<open>Request bodies (\<^verbatim>\<open>src/backend/schemas.py\<close>)\<close>

text \<open>
  A field of type \<^verbatim>\<open>Dict[str, Any]\<close> holds what the JSON parser made of the body:
  \<^verbatim>\<open>None\<close>, booleans, integers of any size, floats, strings, lists and dictionaries.
\<close>

datatype json =
    JNull
  | JBool bool
  | JInt int
  | JFloat "64 word"
  | JStr string
  | JList "json list"
  | JObj "(string \<times> json) list"

primrec to_bson :: "json \<Rightarrow> bson" where
  "to_bson JNull = BNull"
| "to_bson (JBool b) = BBool b"
| "to_bson (JInt i) = BInt i"
| "to_bson (JFloat f) = BFloat f"
| "to_bson (JStr s) = BStr s"
| "to_bson (JList xs) = BList (map to_bson xs)"
| "to_bson (JObj d) = BDoc (map (map_prod id to_bson) d)"

text \<open>The Python dictionary that a parsed JSON object is.\<close>

definition to_doc :: "(string \<times> json) list \<Rightarrow> doc" where
  "to_doc d = map (map_prod id to_bson) d"

record UserCreate =
  uc_email :: string
  uc_name :: string
  uc_password :: string
  uc_role :: string
  uc_systems :: "string list"

text \<open>A field of \<open>UserUpdate\<close> is \<open>None\<close> when the request leaves it out or sends \<^verbatim>\<open>null\<close>.\<close>

record UserUpdate =
  uu_name :: "string option"
  uu_role :: "string option"
  uu_systems :: "string list option"


record Resource =
  r_system :: string
  r_type :: string
  r_data :: "(string \<times> json) list"
  r_owner_id :: "string option"
  r_created_at :: "datetime option"
  r_updated_at :: "datetime option"

record ResourceUpdate =
  ru_data :: "(string \<times> json) list"

record QueryParams =
  qp_filter :: "(string \<times> json) list"
  qp_limit :: int
  qp_skip :: int
  qp_sort :: "string list option"

section \<open>Authentication (\<^verbatim>\<open>src/backend/main.py\<close>)\<close>

definition ACCESS_TOKEN_EXPIRE_MINUTES :: nat where
  "ACCESS_TOKEN_EXPIRE_MINUTES = 60 * 12"

text \<open>
  In the handlers below every call of \<^verbatim>\<open>datetime.utcnow()\<close> reads one argument
  (\<open>now\<close>, \<open>now1\<close>, ...), in the order of the calls.

  \<^verbatim>\<open>expires_delta or timedelta(minutes=...)\<close>: a delta of zero is false in Python.
\<close>

definition create_access_token :: "ext \<Rightarrow> datetime \<Rightarrow> doc \<Rightarrow> nat option \<Rightarrow> string" where
  "create_access_token x now data expires_delta =
     (let to_encode = data;
          expire = plus_minutes x now
            (case expires_delta of
               None \<Rightarrow> ACCESS_TOKEN_EXPIRE_MINUTES
             | Some m \<Rightarrow> if m = 0 then ACCESS_TOKEN_EXPIRE_MINUTES else m)
      in jwt_encode x (py_update to_encode [(''exp'', BDate expire)]))"

text \<open>\<^verbatim>\<open>str\<close> of an \<^verbatim>\<open>_id\<close>: the model covers ObjectIds and strings.\<close>

fun py_str :: "bson \<Rightarrow> error + string" where
  "py_str (BOid s) = Inr s"
| "py_str (BStr s) = Inr s"
| "py_str v = Inl (Unmodelled ''str'')"

text \<open>
  \<^verbatim>\<open>str(d["_id"])\<close>, with \<^verbatim>\<open>KeyError\<close> on a dictionary without \<^verbatim>\<open>_id\<close>, and
  \<^verbatim>\<open>d["id"] = str(d["_id"])\<close>.
\<close>

definition str_id :: "doc \<Rightarrow> error + string" where
  "str_id d = (case map_of d ''_id'' of None \<Rightarrow> Inl (Unhandled ''KeyError'') | Some i \<Rightarrow> py_str i)"

definition with_id :: "doc \<Rightarrow> error + doc" where
  "with_id d = (case str_id d of Inl e \<Rightarrow> Inl e | Inr s \<Rightarrow> Inr (dict_set ''id'' (BStr s) d))"

text \<open>The truth value of what \<^verbatim>\<open>find_one\<close> returns: \<^verbatim>\<open>None\<close> and \<^verbatim>\<open>{}\<close> are false.\<close>

fun truthy :: "doc option \<Rightarrow> bool" where
  "truthy None = False"
| "truthy (Some d) = (d \<noteq> [])"

text \<open>
  \<^verbatim>\<open>authorization.split(" ")[1]\<close> on a header that starts with \<^verbatim>\<open>"Bearer "\<close>: what stands
  between the first blank and the next.
\<close>

definition bearer_token :: "string \<Rightarrow> string" where
  "bearer_token authorization = takeWhile (\<lambda>c. c \<noteq> CHR '' '') (drop 7 authorization)"

definition get_current_user ::
  "ext \<Rightarrow> db \<Rightarrow> datetime \<Rightarrow> string option \<Rightarrow> (error + doc) \<times> db" where
  "get_current_user x w now authorization =
     (case authorization of
        None \<Rightarrow> (Inl (HTTPException 401 ''Not authenticated''), w)
      | Some a \<Rightarrow>
          if take 7 a \<noteq> ''Bearer '' then (Inl (HTTPException 401 ''Not authenticated''), w)
          else
            (case jwt_decode x now (bearer_token a) of
               None \<Rightarrow> (Inl (HTTPException 401 ''Token expired or invalid''), w)
             | Some payload \<Rightarrow>
                 let user_id = py_get payload ''sub''; role = py_get payload ''role''
                 in if user_id = BNull then (Inl (HTTPException 401 ''Invalid token''), w)
                    else
                      (case (case user_id of BStr s \<Rightarrow> ObjectId s | BOid i \<Rightarrow> Inr i
                                           | _ \<Rightarrow> Inl (Unhandled ''TypeError'')) of
                         Inl e \<Rightarrow> (Inl e, w)
                       | Inr oid \<Rightarrow>
                           (case find_one UserColl [(''_id'', BOid oid)] w of
                              (None, w') \<Rightarrow> (Inl (HTTPException 401 ''User not found''), w')
                            | (Some user, w') \<Rightarrow>
                                if user = []
                                then (Inl (HTTPException 401 ''User not found''), w')
                                else
                                  (case with_id user of
                                     Inl e \<Rightarrow> (Inl e, w')
                                   | Inr u \<Rightarrow> (Inr (dict_set ''role'' role u), w'))))))"

definition require_admin :: "doc \<Rightarrow> error + doc" where
  "require_admin user =
     (if py_get user ''role'' \<noteq> BStr ''admin''
      then Inl (HTTPException 403 ''Admin access required'')
      else Inr user)"

text \<open>
  \<^verbatim>\<open>Depends(get_current_user)\<close> and \<^verbatim>\<open>Depends(require_admin)\<close>: the framework resolves the
  caller first and runs the handler only when that has not raised.
\<close>

definition depends_current_user ::
  "ext \<Rightarrow> db \<Rightarrow> datetime \<Rightarrow> string option \<Rightarrow> (doc \<Rightarrow> db \<Rightarrow> (error + bson) \<times> db)
    \<Rightarrow> (error + bson) \<times> db" where
  "depends_current_user x w now authorization handler =
     (case get_current_user x w now authorization of
        (Inl e, w') \<Rightarrow> (Inl e, w')
      | (Inr user, w') \<Rightarrow> handler user w')"

definition depends_require_admin ::
  "ext \<Rightarrow> db \<Rightarrow> datetime \<Rightarrow> string option \<Rightarrow> (db \<Rightarrow> (error + bson) \<times> db)
    \<Rightarrow> (error + bson) \<times> db" where
  "depends_require_admin x w now authorization handler =
     depends_current_user x w now authorization
       (\<lambda>user w'. case require_admin user of Inl e \<Rightarrow> (Inl e, w') | Inr u \<Rightarrow> handler w')"

section \<open>Auth endpoints\<close>

definition token_response :: "string \<Rightarrow> bson" where
  "token_response token = BDoc [(''access_token'', BStr token), (''token_type'', BStr ''bearer'')]"

text \<open>\<^verbatim>\<open>POST /auth/register\<close>\<close>

definition register ::
  "ext \<Rightarrow> db \<Rightarrow> datetime \<Rightarrow> datetime \<Rightarrow> datetime \<Rightarrow> string \<Rightarrow> string \<Rightarrow> UserCreate
    \<Rightarrow> (error + bson) \<times> db" where
  "register x w now1 now2 now3 salt new_id payload =
     (case find_one UserColl [(''email'', BStr (uc_email payload))] w of
        (existing, w1) \<Rightarrow>
          if truthy existing then (Inl (HTTPException 400 ''Email already registered''), w1)
          else
            (case pwd_hash x salt (uc_password payload) of
               Inl e \<Rightarrow> (Inl e, w1)
             | Inr hashed \<Rightarrow>
                 let user_doc =
                       [(''email'', BStr (uc_email payload)),
                        (''name'', BStr (uc_name payload)),
                        (''password'', BStr hashed),
                        (''role'', BStr (uc_role payload)),
                        (''systems'', BList (map BStr (uc_systems payload))),
                        (''created_at'', BDate now1),
                        (''updated_at'', BDate now2)]
                 in (case insert_one UserColl user_doc new_id w1 of
                       (Inl e, w2) \<Rightarrow> (Inl e, w2)
                     | (Inr inserted_id, w2) \<Rightarrow>
                         (case py_str inserted_id of
                            Inl e \<Rightarrow> (Inl e, w2)
                          | Inr sub \<Rightarrow>
                              (Inr (token_response
                                      (create_access_token x now3
                                         [(''sub'', BStr sub), (''role'', BStr (uc_role payload))]
                                         None)),
                               w2)))))"


section \<open>Admin: users\<close>

text \<open>
  The handlers below are behind \<^verbatim>\<open>Depends(require_admin)\<close>; each definition is the body
  of the handler, which \<open>depends_require_admin\<close> runs.

  \<^verbatim>\<open>POST /admin/users\<close>. \<^verbatim>\<open>doc.pop("password")\<close> takes the password out of the
  dictionary, and the hash goes in last.
\<close>

definition create_user ::
  "ext \<Rightarrow> datetime \<Rightarrow> datetime \<Rightarrow> string \<Rightarrow> string \<Rightarrow> UserCreate \<Rightarrow> db \<Rightarrow> (error + bson) \<times> db" where
  "create_user x now1 now2 salt new_id payload w =
     (case find_one UserColl [(''email'', BStr (uc_email payload))] w of
        (existing, w1) \<Rightarrow>
          if truthy existing then (Inl (HTTPException 400 ''Email already exists''), w1)
          else
            (case pwd_hash x salt (uc_password payload) of
               Inl e \<Rightarrow> (Inl e, w1)
             | Inr hashed \<Rightarrow>
                 let doc =
                       [(''email'', BStr (uc_email payload)),
                        (''name'', BStr (uc_name payload)),
                        (''role'', BStr (uc_role payload)),
                        (''systems'', BList (map BStr (uc_systems payload))),
                        (''password'', BStr hashed),
                        (''created_at'', BDate now1),
                        (''updated_at'', BDate now2)]
                 in (case insert_one UserColl doc new_id w1 of
                       (Inl e, w2) \<Rightarrow> (Inl e, w2)
                     | (Inr inserted_id, w2) \<Rightarrow>
                         (case py_str inserted_id of
                            Inl e \<Rightarrow> (Inl e, w2)
                          | Inr s \<Rightarrow> (Inr (BDoc [(''id'', BStr s)]), w2)))))"

text \<open>
  \<^verbatim>\<open>PATCH /admin/users/{user_id}\<close>. The fields of the body that are set and not
  \<^verbatim>\<open>None\<close>, then \<^verbatim>\<open>updated_at\<close>.
\<close>

definition user_updates :: "UserUpdate \<Rightarrow> doc" where
  "user_updates payload =
     (case uu_name payload of None \<Rightarrow> [] | Some n \<Rightarrow> [(''name'', BStr n)])
     @ (case uu_role payload of None \<Rightarrow> [] | Some r \<Rightarrow> [(''role'', BStr r)])
     @ (case uu_systems payload of None \<Rightarrow> [] | Some ss \<Rightarrow> [(''systems'', BList (map BStr ss))])"

definition update_user :: "datetime \<Rightarrow> string \<Rightarrow> UserUpdate \<Rightarrow> db \<Rightarrow> (error + bson) \<times> db" where
  "update_user now user_id payload w =
     (let updates = dict_set ''updated_at'' (BDate now) (user_updates payload)
      in case ObjectId user_id of
           Inl e \<Rightarrow> (Inl e, w)
         | Inr oid \<Rightarrow>
             (case update_one_set UserColl [(''_id'', BOid oid)] updates w of
                (Inl e, w1) \<Rightarrow> (Inl e, w1)
              | (Inr matched_count, w1) \<Rightarrow>
                  if matched_count = 0 then (Inl (HTTPException 404 ''User not found''), w1)
                  else (Inr (BDoc [(''updated'', BBool True)]), w1)))"

text \<open>\<^verbatim>\<open>DELETE /admin/users/{user_id}\<close>\<close>

definition delete_user :: "string \<Rightarrow> db \<Rightarrow> (error + bson) \<times> db" where
  "delete_user user_id w =
     (case ObjectId user_id of
        Inl e \<Rightarrow> (Inl e, w)
      | Inr oid \<Rightarrow>
          (case delete_one UserColl [(''_id'', BOid oid)] w of
             (deleted_count, w1) \<Rightarrow>
               if deleted_count = 0 then (Inl (HTTPException 404 ''User not found''), w1)
               else (Inr (BDoc [(''deleted'', BBool True)]), w1)))"

text \<open>\<^verbatim>\<open>POST /admin/users/{user_id}/assign\<close>\<close>

definition assign_systems :: "string \<Rightarrow> string list \<Rightarrow> db \<Rightarrow> (error + bson) \<times> db" where
  "assign_systems user_id systems w =
     (case ObjectId user_id of
        Inl e \<Rightarrow> (Inl e, w)
      | Inr oid \<Rightarrow>
          (case update_one_addToSet UserColl [(''_id'', BOid oid)] ''systems'' (map BStr systems) w of
             (Inl e, w1) \<Rightarrow> (Inl e, w1)
           | (Inr n, w1) \<Rightarrow> (Inr (BDoc [(''assigned'', BBool True)]), w1)))"

section \<open>Generic CRUD for resources under each system\<close>

text \<open>
  The condition every resource handler starts with:
  \<^verbatim>\<open>user.get("role") != "admin" and system not in user.get("systems", [])\<close>.
  The membership test is not evaluated for an admin.
\<close>

definition access_denied :: "doc \<Rightarrow> string \<Rightarrow> error + bool" where
  "access_denied user system =
     (if py_get user ''role'' \<noteq> BStr ''admin''
      then (case py_in (BStr system) (py_get_default user ''systems'' (BList [])) of
              Inl e \<Rightarrow> Inl e
            | Inr b \<Rightarrow> Inr (\<not> b))
      else Inr False)"

definition forbidden :: error where
  "forbidden = HTTPException 403 ''Access denied to this system''"

text \<open>
  \<^verbatim>\<open>str(user.get("_id")) if isinstance(user.get("_id"), ObjectId) else user.get("id")\<close>
\<close>

definition owner_of :: "doc \<Rightarrow> bson" where
  "owner_of user = (case py_get user ''_id'' of BOid i \<Rightarrow> BStr i | _ \<Rightarrow> py_get user ''id'')"

text \<open>\<^verbatim>\<open>POST /systems/{system}/{rtype}\<close>\<close>

definition create_resource ::
  "datetime \<Rightarrow> datetime \<Rightarrow> string \<Rightarrow> string \<Rightarrow> string \<Rightarrow> Resource \<Rightarrow> doc \<Rightarrow> db
    \<Rightarrow> (error + bson) \<times> db" where
  "create_resource now1 now2 new_id system rtype payload user w =
     (case access_denied user system of
        Inl e \<Rightarrow> (Inl e, w)
      | Inr True \<Rightarrow> (Inl forbidden, w)
      | Inr False \<Rightarrow>
          let doc =
                [(''system'', BStr system),
                 (''type'', BStr rtype),
                 (''data'', BDoc (to_doc (r_data payload))),
                 (''owner_id'', owner_of user),
                 (''created_at'', BDate now1),
                 (''updated_at'', BDate now2)]
          in (case insert_one ResourceColl doc new_id w of
                (Inl e, w1) \<Rightarrow> (Inl e, w1)
              | (Inr inserted_id, w1) \<Rightarrow>
                  (case py_str inserted_id of
                     Inl e \<Rightarrow> (Inl e, w1)
                   | Inr s \<Rightarrow> (Inr (BDoc [(''id'', BStr s)]), w1))))"

text \<open>
  \<^verbatim>\<open>POST /systems/{system}/{rtype}/query\<close>. The filter of the request is any JSON
  object. The model covers the filters that are equalities on top-level fields: no key
  with a dot or a dollar sign, no operator document as a value.
\<close>

definition operator_doc :: "bson \<Rightarrow> bool" where
  "operator_doc v = (case v of BDoc d \<Rightarrow> list_ex (\<lambda>kv. take 1 (fst kv) = ''$'') d | _ \<Rightarrow> False)"

definition plain_query :: "doc \<Rightarrow> bool" where
  "plain_query q =
     list_all (\<lambda>kv. CHR ''.'' \<notin> set (fst kv) \<and> CHR ''$'' \<notin> set (fst kv) \<and> \<not> operator_doc (snd kv)) q"

text \<open>\<^verbatim>\<open>for it in items: it["id"] = str(it["_id"])\<close>\<close>

fun with_ids :: "doc list \<Rightarrow> error + doc list" where
  "with_ids [] = Inr []"
| "with_ids (it # items) =
     (case with_id it of
        Inl e \<Rightarrow> Inl e
      | Inr it' \<Rightarrow> (case with_ids items of Inl e \<Rightarrow> Inl e | Inr items' \<Rightarrow> Inr (it' # items')))"

definition query_resources ::
  "string \<Rightarrow> string \<Rightarrow> QueryParams \<Rightarrow> doc \<Rightarrow> db \<Rightarrow> (error + bson) \<times> db" where
  "query_resources system rtype params user w =
     (case access_denied user system of
        Inl e \<Rightarrow> (Inl e, w)
      | Inr True \<Rightarrow> (Inl forbidden, w)
      | Inr False \<Rightarrow>
          let q = py_update [(''system'', BStr system), (''type'', BStr rtype)]
                    (to_doc (qp_filter params))
          in if \<not> plain_query q then (Inl (Unmodelled ''query''), w)
             else
               (case find_skip_limit ResourceColl q (qp_skip params) (qp_limit params) w of
                  (Inl e, w1) \<Rightarrow> (Inl e, w1)
                | (Inr items, w1) \<Rightarrow>
                    (case with_ids items of
                       Inl e \<Rightarrow> (Inl e, w1)
                     | Inr items' \<Rightarrow> (Inr (BList (map BDoc items')), w1))))"

text \<open>\<^verbatim>\<open>GET /systems/{system}/{rtype}/{rid}\<close>\<close>

definition resource_query :: "string \<Rightarrow> string \<Rightarrow> string \<Rightarrow> doc" where
  "resource_query oid system rtype =
     [(''_id'', BOid oid), (''system'', BStr system), (''type'', BStr rtype)]"

definition get_resource :: "string \<Rightarrow> string \<Rightarrow> string \<Rightarrow> doc \<Rightarrow> db \<Rightarrow> (error + bson) \<times> db" where
  "get_resource system rtype rid user w =
     (case access_denied user system of
        Inl e \<Rightarrow> (Inl e, w)
      | Inr True \<Rightarrow> (Inl forbidden, w)
      | Inr False \<Rightarrow>
          (case ObjectId rid of
             Inl e \<Rightarrow> (Inl e, w)
           | Inr oid \<Rightarrow>
               (case find_one ResourceColl (resource_query oid system rtype) w of
                  (None, w1) \<Rightarrow> (Inl (HTTPException 404 ''Not found''), w1)
                | (Some doc, w1) \<Rightarrow>
                    if doc = [] then (Inl (HTTPException 404 ''Not found''), w1)
                    else
                      (case with_id doc of
                         Inl e \<Rightarrow> (Inl e, w1)
                       | Inr d \<Rightarrow> (Inr (BDoc d), w1)))))"

text \<open>\<^verbatim>\<open>PATCH /systems/{system}/{rtype}/{rid}\<close>\<close>

definition update_resource ::
  "datetime \<Rightarrow> string \<Rightarrow> string \<Rightarrow> string \<Rightarrow> ResourceUpdate \<Rightarrow> doc \<Rightarrow> db
    \<Rightarrow> (error + bson) \<times> db" where
  "update_resource now system rtype rid payload user w =
     (case access_denied user system of
        Inl e \<Rightarrow> (Inl e, w)
      | Inr True \<Rightarrow> (Inl forbidden, w)
      | Inr False \<Rightarrow>
          (case ObjectId rid of
             Inl e \<Rightarrow> (Inl e, w)
           | Inr oid \<Rightarrow>
               (case update_one_set ResourceColl (resource_query oid system rtype)
                       [(''data'', BDoc (to_doc (ru_data payload))), (''updated_at'', BDate now)] w of
                  (Inl e, w1) \<Rightarrow> (Inl e, w1)
                | (Inr matched_count, w1) \<Rightarrow>
                    if matched_count = 0 then (Inl (HTTPException 404 ''Not found''), w1)
                    else (Inr (BDoc [(''updated'', BBool True)]), w1))))"

text \<open>\<^verbatim>\<open>DELETE /systems/{system}/{rtype}/{rid}\<close>\<close>

definition delete_resource ::
  "string \<Rightarrow> string \<Rightarrow> string \<Rightarrow> doc \<Rightarrow> db \<Rightarrow> (error + bson) \<times> db" where
  "delete_resource system rtype rid user w =
     (case access_denied user system of
        Inl e \<Rightarrow> (Inl e, w)
      | Inr True \<Rightarrow> (Inl forbidden, w)
      | Inr False \<Rightarrow>
          (case ObjectId rid of
             Inl e \<Rightarrow> (Inl e, w)
           | Inr oid \<Rightarrow>
               (case delete_one ResourceColl (resource_query oid system rtype) w of
                  (deleted_count, w1) \<Rightarrow>
                    if deleted_count = 0 then (Inl (HTTPException 404 ''Not found''), w1)
                    else (Inr (BDoc [(''deleted'', BBool True)]), w1))))"

text \<open>\<^verbatim>\<open>GET /analytics/{system}\<close>\<close>

definition system_analytics :: "datetime \<Rightarrow> string \<Rightarrow> doc \<Rightarrow> db \<Rightarrow> (error + bson) \<times> db" where
  "system_analytics now system user w =
     (case access_denied user system of
        Inl e \<Rightarrow> (Inl e, w)
      | Inr True \<Rightarrow> (Inl forbidden, w)
      | Inr False \<Rightarrow>
          let since = Datetime (year now) 1 1 0 0 0 0
          in (case aggregate_by_month ResourceColl system since w of
                (Inl e, w1) \<Rightarrow> (Inl e, w1)
              | (Inr agg, w1) \<Rightarrow>
                  (case count_documents ResourceColl [(''system'', BStr system)] w1 of
                     (totals, w2) \<Rightarrow>
                       (Inr (BDoc [(''series'', BList (map BDoc agg)),
                                   (''total'', BInt (int totals))]), w2))))"

section \<open>Sample data\<close>

text \<open>
  A small installation on which the statements below are exercised: one stored user,
  entitled to \<open>school\<close> only, whose stored role is \<open>user\<close>; one resource of the system
  \<open>hospital\<close> and one of the system \<open>school\<close>; a token library that knows two
  tokens for that user, one issued for the role \<open>user\<close> and one for the role \<open>admin\<close>;
  and a password library that raises where \<^verbatim>\<open>passlib\<close> does, on a stored value that is
  not one of its hashes, on a password of more than 4096 characters and on one that holds
  the NUL character.
\<close>

definition uid0 :: string where
  "uid0 = ''64b7f0c2a1d3e4f5a6b7c8d9''"

definition rid0 :: string where
  "rid0 = ''64b7f0c2a1d3e4f5a6b7c8da''"

definition rid1 :: string where
  "rid1 = ''64b7f0c2a1d3e4f5a6b7c8db''"

definition rid2 :: string where
  "rid2 = ''64b7f0c2a1d3e4f5a6b7c8dc''"

definition t0 :: datetime where
  "t0 = Datetime 2024 3 1 9 0 0 0"

definition t1 :: datetime where
  "t1 = Datetime 2024 5 17 12 30 0 0"

definition user0 :: doc where
  "user0 =
     [(''_id'', BOid uid0), (''email'', BStr ''ann@example.org''), (''name'', BStr ''Ann''),
      (''password'', BStr ''salt:secret''), (''role'', BStr ''user''),
      (''systems'', BList [BStr ''school'']), (''created_at'', BDate t0),
      (''updated_at'', BDate t0)]"

definition patient0 :: doc where
  "patient0 =
     [(''_id'', BOid rid0), (''system'', BStr ''hospital''), (''type'', BStr ''patient''),
      (''data'', BDoc [(''name'', BStr ''Bob'')]), (''owner_id'', BStr ''nobody''),
      (''created_at'', BDate t0), (''updated_at'', BDate t0)]"

definition student0 :: doc where
  "student0 =
     [(''_id'', BOid rid1), (''system'', BStr ''school''), (''type'', BStr ''student''),
      (''data'', BDoc [(''name'', BStr ''Ann''), (''age'', BInt 12)]), (''owner_id'', BStr uid0),
      (''created_at'', BDate t0), (''updated_at'', BDate t0)]"

definition db0 :: db where
  "db0 = \<lparr>user_docs = [user0], resource_docs = [patient0, student0], activity_docs = [],
           calls = []\<rparr>"

definition ext0 :: ext where
  "ext0 =
     \<lparr>jwt_encode = (\<lambda>claims. ''signed''),
      jwt_decode = (\<lambda>now token.
         if token = ''user-token'' then Some [(''sub'', BStr uid0), (''role'', BStr ''user'')]
         else if token = ''admin-token'' then Some [(''sub'', BStr uid0), (''role'', BStr ''admin'')]
         else None),
      pwd_hash = (\<lambda>salt password.
         if 4096 < length password then Inl (Unhandled ''PasswordSizeError'')
         else if CHR 0x00 \<in> set password then Inl (Unhandled ''NullPasswordError'')
         else Inr (salt @ '':'' @ password)),
      pwd_verify = (\<lambda>password hashed.
         case hashed of
           BStr h \<Rightarrow>
             if take 5 h \<noteq> ''salt:'' then Inl (Unhandled ''UnknownHashError'')
             else if 4096 < length password then Inl (Unhandled ''PasswordSizeError'')
             else if CHR 0x00 \<in> set password then Inl (Unhandled ''NullPasswordError'')
             else Inr (h = ''salt:'' @ password)
         | _ \<Rightarrow> Inl (Unhandled ''TypeError'')),
      plus_minutes = (\<lambda>t m. case t of Datetime y mo d h mi s us \<Rightarrow> Datetime y mo d h (mi + m) s us)\<rparr>"







text \<open>A store whose one user holds a string where \<open>systems\<close> should be an array.\<close>

definition db_odd :: db where
  "db_odd =
     \<lparr>user_docs = [[(''_id'', BOid uid0), (''email'', BStr ''odd@example.org''),
                     (''systems'', BStr ''school'')]],
      resource_docs = [], activity_docs = [], calls = []\<rparr>"

text \<open>
  A second installation: an empty database in which one user registers with the system
  \<open>school\<close> listed twice.
\<close>

definition db_empty :: db where
  "db_empty = \<lparr>user_docs = [], resource_docs = [], activity_docs = [], calls = []\<rparr>"

definition twice_school :: UserCreate where
  "twice_school =
     \<lparr>uc_email = ''dan@example.org'', uc_name = ''Dan'', uc_password = ''secret'',
      uc_role = ''user'', uc_systems = [''school'', ''school'']\<rparr>"

definition db_dup :: db where
  "db_dup = snd (register ext0 db_empty t0 t0 t0 ''salt'' uid0 twice_school)"

text \<open>\<open>n\<close> identical assign requests in a row.\<close>

fun assign_repeatedly :: "nat \<Rightarrow> string \<Rightarrow> string list \<Rightarrow> db \<Rightarrow> db" where
  "assign_repeatedly 0 user_id systems w = w"
| "assign_repeatedly (Suc n) user_id systems w =
     assign_repeatedly n user_id systems (snd (assign_systems user_id systems w))"

text \<open>A query sent to \<open>school/student\<close> whose filter names another system and type.\<close>

definition cross_query :: QueryParams where
  "cross_query =
     \<lparr>qp_filter = [(''system'', JStr ''hospital''), (''type'', JStr ''patient'')],
      qp_limit = 50, qp_skip = 0, qp_sort = None\<rparr>"

section \<open>Basic facts\<close>

lemma map_of_dict_set: "map_of (dict_set k v d) = (map_of d)(k \<mapsto> v)"
  by (induction d) (auto simp: fun_eq_iff)


lemma py_get_dict_set: "py_get (dict_set k v d) k' = (if k' = k then v else py_get d k')"
  by (simp add: py_get_def map_of_dict_set)

lemma ObjectId_is_oid: "is_oid s \<Longrightarrow> ObjectId s = Inr s"
proof -
  assume h: "is_oid s"
  have low: "c \<in> set ''0123456789abcdef'' \<Longrightarrow> is_hex c \<and> lower_hex c = c" for c
    by (auto simp: is_hex_def lower_hex_def)
  from h have "list_all is_hex s" and "map lower_hex s = s"
    using low by (auto simp: is_oid_def list_all_iff intro: map_idI)
  with h show ?thesis
    by (simp add: ObjectId_def is_oid_def)
qed

subsection \<open>Resolving the caller\<close>

text \<open>
  What a successful \<open>get_current_user\<close> has done: the token decodes, its subject is an
  ObjectId, the user collection was read once, by that id, and the caller is the stored
  document with \<open>id\<close> added and \<open>role\<close> set to the role of the token.
\<close>

lemma get_current_user_Inr:
  assumes "get_current_user x w now (Some a) = (Inr u, w')"
  obtains payload oid stored u0 where
    "take 7 a = ''Bearer ''"
    "jwt_decode x now (bearer_token a) = Some payload"
    "(case py_get payload ''sub'' of BStr s \<Rightarrow> ObjectId s | BOid i \<Rightarrow> Inr i
        | _ \<Rightarrow> Inl (Unhandled ''TypeError'')) = Inr oid"
    "find (matches [(''_id'', BOid oid)]) (user_docs w) = Some stored"
    "with_id stored = Inr u0"
    "u = dict_set ''role'' (py_get payload ''role'') u0"
    "w' = called UserColl FindOne w"
  using assms unfolding get_current_user_def find_one_def
  by (auto simp: Let_def split: if_splits option.splits sum.splits bson.splits prod.splits)

lemma py_get_default_dict_set:
  "py_get_default (dict_set k v d) k' dflt = (if k' = k then v else py_get_default d k' dflt)"
  by (simp add: py_get_default_def map_of_dict_set)

lemma matches_id: "matches [(''_id'', BOid oid)] d \<longleftrightarrow> map_of d ''_id'' = Some (BOid oid)"
  by (auto simp: matches_def field_matches_def split: option.splits)

text \<open>
  The caller that \<open>get_current_user\<close> resolves from a token whose subject is the id of
  a stored user.
\<close>

lemma get_current_user_stored:
  assumes "take 7 a = ''Bearer ''"
    and "jwt_decode x now (bearer_token a) = Some payload"
    and "py_get payload ''sub'' = BStr s"
    and "ObjectId s = Inr oid"
    and "find (matches [(''_id'', BOid oid)]) (user_docs w) = Some stored"
  shows "get_current_user x w now (Some a)
    = (Inr (dict_set ''role'' (py_get payload ''role'') (dict_set ''id'' (BStr oid) stored)),
       called UserColl FindOne w)"
proof -
  from assms(5) have "matches [(''_id'', BOid oid)] stored"
    by (auto dest: find_Some_iff [THEN iffD1])
  then have id: "map_of stored ''_id'' = Some (BOid oid)"
    by (simp add: matches_id)
  then have "stored \<noteq> []"
    by auto
  moreover have "with_id stored = Inr (dict_set ''id'' (BStr oid) stored)"
    using id by (simp add: with_id_def str_id_def)
  ultimately show ?thesis
    using assms by (simp add: get_current_user_def find_one_def)
qed

section \<open>The admin guard\<close>

text \<open>
  C4. A request that carries a token issued for the role \<open>user\<close> never passes the
  admin-only guard, whatever admin endpoint \<open>handler\<close> it is sent to: when the caller
  cannot be resolved the request fails with the error of \<open>get_current_user\<close>, and when
  the caller is resolved the guard rejects it with status 403; in both cases the handler
  is not run.
\<close>

theorem user_token_never_passes_admin_guard:
  assumes "jwt_decode x now (bearer_token a) = Some payload"
    and "py_get payload ''role'' = BStr ''user''"
  shows "case get_current_user x w now (Some a) of
           (Inl e, w') \<Rightarrow> depends_require_admin x w now (Some a) handler = (Inl e, w')
         | (Inr u, w') \<Rightarrow>
             depends_require_admin x w now (Some a) handler
               = (Inl (HTTPException 403 ''Admin access required''), w')"
proof (cases "get_current_user x w now (Some a)")
  case (Pair r w')
  show ?thesis
  proof (cases r)
    case (Inl e)
    with Pair show ?thesis
      by (simp add: depends_require_admin_def depends_current_user_def)
  next
    case (Inr u)
    with Pair have res: "get_current_user x w now (Some a) = (Inr u, w')"
      by simp
    from res obtain payload' u0 where
      "jwt_decode x now (bearer_token a) = Some payload'"
      "u = dict_set ''role'' (py_get payload' ''role'') u0"
      by (rule get_current_user_Inr)
    with assms have "py_get u ''role'' = BStr ''user''"
      by (simp add: py_get_dict_set)
    then have "require_admin u = Inl (HTTPException 403 ''Admin access required'')"
      by (simp add: require_admin_def)
    with res show ?thesis
      by (simp add: depends_require_admin_def depends_current_user_def)
  qed
qed

theorem user_token_never_passes_admin_guard_witness:
  "jwt_decode ext0 t1 (bearer_token ''Bearer user-token'')
     = Some [(''sub'', BStr uid0), (''role'', BStr ''user'')]
   \<and> py_get [(''sub'', BStr uid0), (''role'', BStr ''user'')] ''role'' = BStr ''user''
   \<and> fst (get_current_user ext0 db0 t1 (Some ''Bearer user-token''))
       = Inr (user0 @ [(''id'', BStr uid0)])
   \<and> depends_require_admin ext0 db0 t1 (Some ''Bearer user-token'')
        (assign_systems uid0 [''hospital''])
       = (Inl (HTTPException 403 ''Admin access required''), called UserColl FindOne db0)"
proof -
  have dec: "jwt_decode ext0 t1 (bearer_token ''Bearer user-token'')
      = Some [(''sub'', BStr uid0), (''role'', BStr ''user'')]"
    by (simp add: ext0_def bearer_token_def)
  have role: "py_get [(''sub'', BStr uid0), (''role'', BStr ''user'')] ''role'' = BStr ''user''"
    by (simp add: py_get_def)
  have oid: "ObjectId uid0 = Inr uid0"
    by (rule ObjectId_is_oid) (simp add: is_oid_def uid0_def)
  have gcu: "get_current_user ext0 db0 t1 (Some ''Bearer user-token'')
      = (Inr (user0 @ [(''id'', BStr uid0)]), called UserColl FindOne db0)"
    using dec oid
    by (simp add: get_current_user_def py_get_def find_one_def db0_def matches_def
        field_matches_def user0_def with_id_def str_id_def)
  show ?thesis
    using user_token_never_passes_admin_guard [OF dec role, of db0 "assign_systems uid0 [''hospital'']"]
      dec role gcu
    by simp
qed

section \<open>The entitlement guard\<close>

lemma create_resource_denied:
  "access_denied user system = Inr True \<Longrightarrow>
   create_resource now1 now2 new_id system rtype payload user w = (Inl forbidden, w)"
  by (simp add: create_resource_def)

lemma query_resources_denied:
  "access_denied user system = Inr True \<Longrightarrow>
   query_resources system rtype params user w = (Inl forbidden, w)"
  by (simp add: query_resources_def)

lemma get_resource_denied:
  "access_denied user system = Inr True \<Longrightarrow>
   get_resource system rtype rid user w = (Inl forbidden, w)"
  by (simp add: get_resource_def)

lemma update_resource_denied:
  "access_denied user system = Inr True \<Longrightarrow>
   update_resource now system rtype rid upd user w = (Inl forbidden, w)"
  by (simp add: update_resource_def)

lemma delete_resource_denied:
  "access_denied user system = Inr True \<Longrightarrow>
   delete_resource system rtype rid user w = (Inl forbidden, w)"
  by (simp add: delete_resource_def)

lemma system_analytics_denied:
  "access_denied user system = Inr True \<Longrightarrow>
   system_analytics now system user w = (Inl forbidden, w)"
  by (simp add: system_analytics_def)

text \<open>
  A caller that has been resolved, is not an admin and does not hold the system of the
  path: all six requests fail with status 403, and nothing but the \<open>find_one\<close> that
  resolved the caller has touched the database.
\<close>

lemma denied_caller_is_forbidden:
  assumes "get_current_user x w now (Some a) = (Inr user, w')"
    and "py_get user ''role'' \<noteq> BStr ''admin''"
    and "py_in (BStr system) (py_get_default user ''systems'' (BList [])) = Inr False"
  shows "depends_current_user x w now (Some a)
           (create_resource now1 now2 new_id system rtype payload) = (Inl forbidden, w')
       \<and> depends_current_user x w now (Some a)
           (query_resources system rtype params) = (Inl forbidden, w')
       \<and> depends_current_user x w now (Some a)
           (get_resource system rtype rid) = (Inl forbidden, w')
       \<and> depends_current_user x w now (Some a)
           (update_resource now3 system rtype rid upd) = (Inl forbidden, w')
       \<and> depends_current_user x w now (Some a)
           (delete_resource system rtype rid) = (Inl forbidden, w')
       \<and> depends_current_user x w now (Some a)
           (system_analytics now4 system) = (Inl forbidden, w')"
proof -
  have denied: "access_denied user system = Inr True"
    using assms(2,3) by (simp add: access_denied_def)
  have "depends_current_user x w now (Some a) handler = handler user w'" for handler
    using assms(1) by (simp add: depends_current_user_def)
  then show ?thesis
    using denied
    by (simp add: create_resource_denied query_resources_denied get_resource_denied
        update_resource_denied delete_resource_denied system_analytics_denied)
qed

text \<open>
  C3, as the code has it. The request carries a token whose subject is a stored user
  and whose role is not \<open>admin\<close>, and the system of the path is not among the stored
  user's systems. Then create, query, get, update and delete under that system, and its
  analytics, all fail with status 403, for every type, resource id and parsed body; the
  documents of all three collections are what they were, and the only call made on the
  database is the \<open>find_one\<close> on the user collection that resolved the caller.
\<close>

theorem non_admin_token_not_entitled_is_forbidden:
  assumes "take 7 a = ''Bearer ''"
    and "jwt_decode x now (bearer_token a) = Some payload"
    and "py_get payload ''sub'' = BStr s"
    and "ObjectId s = Inr oid"
    and "find (matches [(''_id'', BOid oid)]) (user_docs w) = Some stored"
    and "py_get payload ''role'' \<noteq> BStr ''admin''"
    and "py_in (BStr system) (py_get_default stored ''systems'' (BList [])) = Inr False"
  shows "depends_current_user x w now (Some a)
           (create_resource now1 now2 new_id system rtype payload')
           = (Inl forbidden, called UserColl FindOne w)
       \<and> depends_current_user x w now (Some a)
           (query_resources system rtype params) = (Inl forbidden, called UserColl FindOne w)
       \<and> depends_current_user x w now (Some a)
           (get_resource system rtype rid) = (Inl forbidden, called UserColl FindOne w)
       \<and> depends_current_user x w now (Some a)
           (update_resource now3 system rtype rid upd) = (Inl forbidden, called UserColl FindOne w)
       \<and> depends_current_user x w now (Some a)
           (delete_resource system rtype rid) = (Inl forbidden, called UserColl FindOne w)
       \<and> depends_current_user x w now (Some a)
           (system_analytics now4 system) = (Inl forbidden, called UserColl FindOne w)
       \<and> user_docs (called UserColl FindOne w) = user_docs w
       \<and> resource_docs (called UserColl FindOne w) = resource_docs w
       \<and> activity_docs (called UserColl FindOne w) = activity_docs w
       \<and> calls (called UserColl FindOne w) = calls w @ [(UserColl, FindOne)]"
proof -
  let ?user = "dict_set ''role'' (py_get payload ''role'') (dict_set ''id'' (BStr oid) stored)"
  have caller: "get_current_user x w now (Some a) = (Inr ?user, called UserColl FindOne w)"
    by (rule get_current_user_stored) (rule assms)+
  have role: "py_get ?user ''role'' \<noteq> BStr ''admin''"
    using assms(6) by (simp add: py_get_dict_set)
  have sys: "py_in (BStr system) (py_get_default ?user ''systems'' (BList [])) = Inr False"
    using assms(7) by (simp add: py_get_default_dict_set)
  show ?thesis
    using denied_caller_is_forbidden [OF caller role sys]
    by (simp add: called_def)
qed

theorem non_admin_token_not_entitled_is_forbidden_witness:
  "take 7 ''Bearer user-token'' = ''Bearer ''
   \<and> jwt_decode ext0 t1 (bearer_token ''Bearer user-token'')
       = Some [(''sub'', BStr uid0), (''role'', BStr ''user'')]
   \<and> py_get [(''sub'', BStr uid0), (''role'', BStr ''user'')] ''sub'' = BStr uid0
   \<and> ObjectId uid0 = Inr uid0
   \<and> find (matches [(''_id'', BOid uid0)]) (user_docs db0) = Some user0
   \<and> py_get [(''sub'', BStr uid0), (''role'', BStr ''user'')] ''role'' \<noteq> BStr ''admin''
   \<and> py_in (BStr ''hospital'') (py_get_default user0 ''systems'' (BList [])) = Inr False
   \<and> depends_current_user ext0 db0 t1 (Some ''Bearer user-token'')
        (get_resource ''hospital'' ''patient'' rid0)
       = (Inl forbidden, called UserColl FindOne db0)
   \<and> depends_current_user ext0 db0 t1 (Some ''Bearer user-token'')
        (delete_resource ''hospital'' ''patient'' rid0)
       = (Inl forbidden, called UserColl FindOne db0)
   \<and> resource_docs (called UserColl FindOne db0) = resource_docs db0
   \<and> calls (called UserColl FindOne db0) = calls db0 @ [(UserColl, FindOne)]"
proof -
  have a: "take 7 ''Bearer user-token'' = ''Bearer ''"
    by simp
  have b: "jwt_decode ext0 t1 (bearer_token ''Bearer user-token'')
      = Some [(''sub'', BStr uid0), (''role'', BStr ''user'')]"
    by (simp add: ext0_def bearer_token_def)
  have c: "py_get [(''sub'', BStr uid0), (''role'', BStr ''user'')] ''sub'' = BStr uid0"
    by (simp add: py_get_def)
  have d: "ObjectId uid0 = Inr uid0"
    by (rule ObjectId_is_oid) (simp add: is_oid_def uid0_def)
  have e: "find (matches [(''_id'', BOid uid0)]) (user_docs db0) = Some user0"
    by (simp add: db0_def user0_def matches_id)
  have f: "py_get [(''sub'', BStr uid0), (''role'', BStr ''user'')] ''role'' \<noteq> BStr ''admin''"
    by (simp add: py_get_def)
  have g: "py_in (BStr ''hospital'') (py_get_default user0 ''systems'' (BList [])) = Inr False"
    by (simp add: py_get_default_def user0_def)
  show ?thesis
    using non_admin_token_not_entitled_is_forbidden [OF a b c d e f g,
        where rtype = "''patient''" and rid = rid0] a b c d e f g
    by blast
qed

text \<open>
  The stored role of the user is \<open>user\<close> and the user's systems do not include
  \<open>hospital\<close>; with a token issued for the role \<open>admin\<close> the same user passes the
  entitlement condition, and the delete under \<open>hospital\<close> removes the patient.
\<close>

theorem admin_token_passes_entitlement_condition:
  "py_get user0 ''role'' = BStr ''user''
   \<and> py_in (BStr ''hospital'') (py_get_default user0 ''systems'' (BList [])) = Inr False
   \<and> find (matches [(''_id'', BOid uid0)]) (user_docs db0) = Some user0
   \<and> resource_docs db0 = [patient0, student0]
   \<and> fst (depends_current_user ext0 db0 t1 (Some ''Bearer admin-token'')
            (delete_resource ''hospital'' ''patient'' rid0))
       = Inr (BDoc [(''deleted'', BBool True)])
   \<and> resource_docs (snd (depends_current_user ext0 db0 t1 (Some ''Bearer admin-token'')
                            (delete_resource ''hospital'' ''patient'' rid0)))
       = [student0]"
proof -
  let ?user = "dict_set ''role'' (BStr ''admin'') (dict_set ''id'' (BStr uid0) user0)"
  let ?w = "called UserColl FindOne db0"
  have oid: "ObjectId uid0 = Inr uid0"
    by (rule ObjectId_is_oid) (simp add: is_oid_def uid0_def)
  have rid: "ObjectId rid0 = Inr rid0"
    by (rule ObjectId_is_oid) (simp add: is_oid_def rid0_def)
  have found: "find (matches [(''_id'', BOid uid0)]) (user_docs db0) = Some user0"
    by (simp add: db0_def user0_def matches_id)
  have caller: "get_current_user ext0 db0 t1 (Some ''Bearer admin-token'') = (Inr ?user, ?w)"
    using oid
    by (simp add: get_current_user_def ext0_def bearer_token_def py_get_def find_one_def db0_def
        matches_id user0_def with_id_def str_id_def)
  have allowed: "access_denied ?user ''hospital'' = Inr False"
    by (simp add: access_denied_def py_get_dict_set)
  have del: "delete_resource ''hospital'' ''patient'' rid0 ?user ?w
      = (Inr (BDoc [(''deleted'', BBool True)]),
         put_docs ResourceColl [student0] (called ResourceColl DeleteOne ?w))"
    by (simp add: delete_resource_def allowed rid delete_one_def)
      (simp add: called_def db0_def patient0_def student0_def matches_def field_matches_def
        resource_query_def rid0_def rid1_def)
  have role: "py_get user0 ''role'' = BStr ''user''"
    by (simp add: py_get_def user0_def)
  have sys: "py_in (BStr ''hospital'') (py_get_default user0 ''systems'' (BList [])) = Inr False"
    by (simp add: py_get_default_def user0_def)
  have docs: "resource_docs db0 = [patient0, student0]"
    by (simp add: db0_def)
  show ?thesis
    using role sys found docs
    by (simp add: depends_current_user_def caller del)
qed

section \<open>Login\<close>




section \<open>Resources: create, update, get\<close>


lemma find_update_first:
  "find P xs = Some d \<Longrightarrow> P (f d) \<Longrightarrow> find P (update_first P f xs) = Some (f d)"
  by (induction xs) (auto split: if_splits)












section \<open>Assigning systems\<close>

lemma set_add_each: "set (add_each xs vs) = set xs \<union> set vs"
  by (induction vs arbitrary: xs) auto

lemma count_add_each:
  "count_list (add_each xs vs) v
     = (if v \<in> set xs then count_list xs v else if v \<in> set vs then 1 else 0)"
proof (induction vs arbitrary: xs)
  case Nil
  then show ?case by (simp add: count_list_0_iff)
next
  case (Cons a vs)
  then show ?case by (auto simp: count_list_0_iff)
qed

lemma add_each_absorbed: "set vs \<subseteq> set xs \<Longrightarrow> add_each xs vs = xs"
  by (induction vs arbitrary: xs) auto

lemma add_each_again: "add_each (add_each xs vs) vs = add_each xs vs"
  by (rule add_each_absorbed) (simp add: set_add_each)

lemma dict_set_again: "dict_set k v (dict_set k v d) = dict_set k v d"
  by (induction d) auto

lemma update_first_same: "find P xs = Some d \<Longrightarrow> update_first P (\<lambda>_. d) xs = xs"
  by (induction xs) (auto split: if_splits)

text \<open>The effect of an assign request on a stored user whose \<open>systems\<close> is an array.\<close>

lemma assign_systems_existing:
  assumes "ObjectId user_id = Inr oid"
    and "find (matches [(''_id'', BOid oid)]) (user_docs w) = Some u"
    and "map_of u ''systems'' = Some (BList xs)"
  shows "assign_systems user_id systems w
    = (Inr (BDoc [(''assigned'', BBool True)]),
       put_docs UserColl
         (update_first (matches [(''_id'', BOid oid)])
            (\<lambda>d. dict_set ''systems'' (BList (add_each xs (map BStr systems))) u) (user_docs w))
         (called UserColl UpdateOne w))"
  using assms by (simp add: assign_systems_def update_one_addToSet_def add_to_set_def)
text \<open>
  C7, as the code has it. The user exists, the stored \<open>systems\<close> is an array, and none
  of the assigned ids is in it more than once. After one assign request, and after any
  number of repetitions of it, the stored array holds what it held and every assigned
  id, each assigned id exactly once; the repetitions leave the user collection as the
  first request left it.
\<close>

theorem assign_systems_union_idempotent:
  assumes "ObjectId user_id = Inr oid"
    and "find (matches [(''_id'', BOid oid)]) (user_docs w) = Some u"
    and "map_of u ''systems'' = Some (BList xs)"
    and "list_all (\<lambda>s. count_list xs (BStr s) \<le> 1) systems"
  shows "fst (assign_systems user_id systems w) = Inr (BDoc [(''assigned'', BBool True)])
       \<and> user_docs (assign_repeatedly (Suc n) user_id systems w)
           = user_docs (snd (assign_systems user_id systems w))
       \<and> (\<exists>u' ys. find (matches [(''_id'', BOid oid)])
                      (user_docs (assign_repeatedly (Suc n) user_id systems w)) = Some u'
                  \<and> map_of u' ''systems'' = Some (BList ys)
                  \<and> set ys = set xs \<union> BStr ` set systems
                  \<and> list_all (\<lambda>s. count_list ys (BStr s) = 1) systems)"
proof -
  let ?q = "[(''_id'', BOid oid)]"
  let ?ys = "add_each xs (map BStr systems)"
  let ?u1 = "dict_set ''systems'' (BList ?ys) u"
  let ?w1 = "snd (assign_systems user_id systems w)"
  have first: "assign_systems user_id systems w
      = (Inr (BDoc [(''assigned'', BBool True)]),
         put_docs UserColl (update_first (matches ?q) (\<lambda>d. ?u1) (user_docs w))
           (called UserColl UpdateOne w))"
    by (rule assign_systems_existing) (rule assms)+
  have docs1: "user_docs ?w1 = update_first (matches ?q) (\<lambda>d. ?u1) (user_docs w)"
    by (simp add: first called_def)
  from assms(2) have "matches ?q u"
    by (auto dest: find_Some_iff [THEN iffD1])
  then have still: "matches ?q ?u1"
    by (simp add: matches_id map_of_dict_set)
  have found1: "find (matches ?q) (user_docs ?w1) = Some ?u1"
    by (subst docs1) (rule find_update_first, rule assms(2), rule still)
  have sys1: "map_of ?u1 ''systems'' = Some (BList ?ys)"
    by (simp add: map_of_dict_set)
  have again: "user_docs (snd (assign_systems user_id systems w')) = user_docs w'"
    if "find (matches ?q) (user_docs w') = Some ?u1" for w'
  proof -
    have "assign_systems user_id systems w'
        = (Inr (BDoc [(''assigned'', BBool True)]),
           put_docs UserColl
             (update_first (matches ?q)
                (\<lambda>d. dict_set ''systems'' (BList (add_each ?ys (map BStr systems))) ?u1)
                (user_docs w'))
             (called UserColl UpdateOne w'))"
      by (rule assign_systems_existing) (rule assms(1), rule that, rule sys1)
    then have "user_docs (snd (assign_systems user_id systems w'))
        = update_first (matches ?q) (\<lambda>d. ?u1) (user_docs w')"
      by (simp add: called_def add_each_again dict_set_again)
    with that show ?thesis
      by (simp add: update_first_same)
  qed
  have rep: "user_docs (assign_repeatedly k user_id systems w') = user_docs w'"
    if "find (matches ?q) (user_docs w') = Some ?u1" for k w'
    using that
  proof (induction k arbitrary: w')
    case 0
    then show ?case by simp
  next
    case (Suc k)
    have same: "user_docs (snd (assign_systems user_id systems w')) = user_docs w'"
      by (rule again) (rule Suc.prems)
    with Suc.prems have "find (matches ?q) (user_docs (snd (assign_systems user_id systems w')))
        = Some ?u1"
      by simp
    then have "user_docs (assign_repeatedly k user_id systems (snd (assign_systems user_id systems w')))
        = user_docs (snd (assign_systems user_id systems w'))"
      by (rule Suc.IH)
    with same show ?case by simp
  qed
  have all: "user_docs (assign_repeatedly (Suc n) user_id systems w) = user_docs ?w1"
    using rep [OF found1, of n] by simp
  have counts: "list_all (\<lambda>s. count_list ?ys (BStr s) = 1) systems"
    using assms(4)
    by (auto simp: list_all_iff count_add_each count_list_0_iff le_Suc_eq)
  have members: "set ?ys = set xs \<union> BStr ` set systems"
    by (simp add: set_add_each)
  show ?thesis
    using first all found1 sys1 members counts by auto
qed
theorem assign_systems_union_idempotent_witness:
  "ObjectId uid0 = Inr uid0
   \<and> find (matches [(''_id'', BOid uid0)]) (user_docs db0) = Some user0
   \<and> map_of user0 ''systems'' = Some (BList [BStr ''school''])
   \<and> list_all (\<lambda>s. count_list [BStr ''school''] (BStr s) \<le> 1)
        [''school'', ''hospital'', ''hospital'']
   \<and> fst (assign_systems uid0 [''school'', ''hospital'', ''hospital''] db0)
       = Inr (BDoc [(''assigned'', BBool True)])
   \<and> user_docs (assign_repeatedly (Suc 2) uid0 [''school'', ''hospital'', ''hospital''] db0)
       = user_docs (snd (assign_systems uid0 [''school'', ''hospital'', ''hospital''] db0))
   \<and> (\<exists>u' ys. find (matches [(''_id'', BOid uid0)])
                  (user_docs (assign_repeatedly (Suc 2) uid0
                     [''school'', ''hospital'', ''hospital''] db0)) = Some u'
              \<and> map_of u' ''systems'' = Some (BList ys)
              \<and> set ys = set [BStr ''school''] \<union> BStr ` set [''school'', ''hospital'', ''hospital'']
              \<and> list_all (\<lambda>s. count_list ys (BStr s) = 1) [''school'', ''hospital'', ''hospital''])"
proof -
  have a: "ObjectId uid0 = Inr uid0"
    by (rule ObjectId_is_oid) (simp add: is_oid_def uid0_def)
  have b: "find (matches [(''_id'', BOid uid0)]) (user_docs db0) = Some user0"
    by (simp add: db0_def user0_def matches_id)
  have c: "map_of user0 ''systems'' = Some (BList [BStr ''school''])"
    by (simp add: user0_def)
  have d: "list_all (\<lambda>s. count_list [BStr ''school''] (BStr s) \<le> 1)
      [''school'', ''hospital'', ''hospital'']"
    by simp
  show ?thesis
    using assign_systems_union_idempotent [OF a b c d, of 2] a b c d
    by blast
qed

text \<open>
  Where the stored array already holds an id twice, the request leaves it there twice.
  Such an array is stored by a registration that lists the id twice.
\<close>

theorem assign_systems_keeps_duplicates:
  "map (\<lambda>u. py_get u ''systems'') (user_docs db_dup) = [BList [BStr ''school'', BStr ''school'']]
   \<and> fst (assign_systems uid0 [''school''] db_dup) = Inr (BDoc [(''assigned'', BBool True)])
   \<and> map (\<lambda>u. py_get u ''systems'') (user_docs (snd (assign_systems uid0 [''school''] db_dup)))
       = [BList [BStr ''school'', BStr ''school'']]
   \<and> count_list [BStr ''school'', BStr ''school''] (BStr ''school'') = 2"
proof -
  have oid: "ObjectId uid0 = Inr uid0"
    by (rule ObjectId_is_oid) (simp add: is_oid_def uid0_def)
  let ?u = "[(''email'', BStr ''dan@example.org''), (''name'', BStr ''Dan''),
             (''password'', BStr ''salt:secret''), (''role'', BStr ''user''),
             (''systems'', BList [BStr ''school'', BStr ''school'']),
             (''created_at'', BDate t0), (''updated_at'', BDate t0), (''_id'', BOid uid0)]"
  have docs: "user_docs db_dup = [?u]"
    by (simp add: db_dup_def register_def find_one_def db_empty_def twice_school_def
        insert_one_def encode_def called_def py_get_def ext0_def t0_def)
  have found: "find (matches [(''_id'', BOid uid0)]) (user_docs db_dup) = Some ?u"
    by (simp add: docs matches_id)
  have sys: "map_of ?u ''systems'' = Some (BList [BStr ''school'', BStr ''school''])"
    by simp
  have res: "assign_systems uid0 [''school''] db_dup
      = (Inr (BDoc [(''assigned'', BBool True)]),
         put_docs UserColl
           (update_first (matches [(''_id'', BOid uid0)])
              (\<lambda>d. dict_set ''systems''
                     (BList (add_each [BStr ''school'', BStr ''school''] (map BStr [''school'']))) ?u)
              (user_docs db_dup))
           (called UserColl UpdateOne db_dup))"
    by (rule assign_systems_existing) (rule oid, rule found, rule sys)
  show ?thesis
    by (simp add: res called_def) (simp add: docs matches_id py_get_def)
qed

text \<open>The update an admin update sends can always be encoded.\<close>

lemma first_error_strings: "first_error (map (encode_error \<circ> BStr) ss) = None"
  by (induction ss) auto

lemma encode_user_updates:
  "encode (dict_set ''updated_at'' (BDate now) (user_updates payload))
     = Inr (map (map_prod id stored_form) (dict_set ''updated_at'' (BDate now) (user_updates payload)))"
  by (cases "uu_name payload"; cases "uu_role payload"; cases "uu_systems payload")
    (simp_all add: encode_def user_updates_def first_error_strings)

text \<open>
  C10, as the code has it. The id of the path is an ObjectId. When no stored user has
  it, the assign request succeeds with \<open>{"assigned": true}\<close> and leaves every
  collection as it was, where the update and the delete of the same id fail with status
  404. When a stored user has it, the request succeeds as well, unless what that user
  holds as \<open>systems\<close> is not an array: then the database refuses the update. In no
  case does the request fail with status 404.
\<close>

theorem assign_systems_never_not_found:
  assumes "ObjectId user_id = Inr oid"
  shows "case find (matches [(''_id'', BOid oid)]) (user_docs w) of
           None \<Rightarrow>
             assign_systems user_id systems w
               = (Inr (BDoc [(''assigned'', BBool True)]), called UserColl UpdateOne w)
             \<and> user_docs (snd (assign_systems user_id systems w)) = user_docs w
             \<and> fst (update_user now user_id payload w)
                 = Inl (HTTPException 404 ''User not found'')
             \<and> fst (delete_user user_id w) = Inl (HTTPException 404 ''User not found'')
         | Some u \<Rightarrow>
             (case map_of u ''systems'' of
                None \<Rightarrow>
                  fst (assign_systems user_id systems w) = Inr (BDoc [(''assigned'', BBool True)])
              | Some (BList xs) \<Rightarrow>
                  fst (assign_systems user_id systems w) = Inr (BDoc [(''assigned'', BBool True)])
              | Some _ \<Rightarrow>
                  fst (assign_systems user_id systems w) = Inl (Unhandled ''WriteError''))"
proof (cases "find (matches [(''_id'', BOid oid)]) (user_docs w)")
  case None
  with assms show ?thesis
    by (simp add: assign_systems_def update_one_addToSet_def update_user_def update_one_set_def
        encode_user_updates delete_user_def delete_one_def called_def)
next
  case (Some u)
  with assms show ?thesis
    by (simp add: assign_systems_def update_one_addToSet_def add_to_set_def
        split: option.splits bson.splits)
qed

theorem assign_systems_never_not_found_witness:
  "ObjectId rid2 = Inr rid2
   \<and> find (matches [(''_id'', BOid rid2)]) (user_docs db0) = None
   \<and> assign_systems rid2 [''school''] db0
       = (Inr (BDoc [(''assigned'', BBool True)]), called UserColl UpdateOne db0)
   \<and> user_docs (snd (assign_systems rid2 [''school''] db0)) = user_docs db0
   \<and> fst (update_user t1 rid2 \<lparr>uu_name = Some ''Eve'', uu_role = None, uu_systems = None\<rparr> db0)
       = Inl (HTTPException 404 ''User not found'')
   \<and> fst (delete_user rid2 db0) = Inl (HTTPException 404 ''User not found'')
   \<and> ObjectId uid0 = Inr uid0
   \<and> find (matches [(''_id'', BOid uid0)]) (user_docs db0) = Some user0
   \<and> map_of user0 ''systems'' = Some (BList [BStr ''school''])
   \<and> fst (assign_systems uid0 [''hospital''] db0) = Inr (BDoc [(''assigned'', BBool True)])"
proof -
  have a: "ObjectId rid2 = Inr rid2"
    by (rule ObjectId_is_oid) (simp add: is_oid_def rid2_def)
  have b: "find (matches [(''_id'', BOid rid2)]) (user_docs db0) = None"
    by (simp add: db0_def user0_def matches_id uid0_def rid2_def)
  have c: "ObjectId uid0 = Inr uid0"
    by (rule ObjectId_is_oid) (simp add: is_oid_def uid0_def)
  have d: "find (matches [(''_id'', BOid uid0)]) (user_docs db0) = Some user0"
    by (simp add: db0_def user0_def matches_id)
  have e: "map_of user0 ''systems'' = Some (BList [BStr ''school''])"
    by (simp add: user0_def)
  show ?thesis
    using assign_systems_never_not_found [OF a, where w = db0 and systems = "[''school'']"
        and now = t1 and payload = "\<lparr>uu_name = Some ''Eve'', uu_role = None, uu_systems = None\<rparr>"]
      assign_systems_never_not_found [OF c, where w = db0 and systems = "[''hospital'']"]
      a b c d e
    by (simp add: called_def)
qed

text \<open>
  An id of the path that is not 24 characters long: \<^verbatim>\<open>ObjectId(user_id)\<close> raises
  \<^verbatim>\<open>InvalidId\<close>, which no handler catches. And a stored user that holds a string as
  \<open>systems\<close>: the database refuses the update.
\<close>

theorem assign_systems_malformed_id:
  "assign_systems ''abc'' [''school''] db0 = (Inl (Unhandled ''InvalidId''), db0)
   \<and> fst (assign_systems uid0 [''hospital''] db_odd) = Inl (Unhandled ''WriteError'')"
proof -
  have oid: "ObjectId uid0 = Inr uid0"
    by (rule ObjectId_is_oid) (simp add: is_oid_def uid0_def)
  have "assign_systems ''abc'' [''school''] db0 = (Inl (Unhandled ''InvalidId''), db0)"
    by (simp add: assign_systems_def ObjectId_def)
  moreover have "fst (assign_systems uid0 [''hospital''] db_odd) = Inl (Unhandled ''WriteError'')"
    by (simp add: assign_systems_def oid update_one_addToSet_def db_odd_def matches_id
        add_to_set_def)
  ultimately show ?thesis
    by simp
qed

section \<open>Time stamps of the user collection\<close>

text \<open>
  A registration and an admin create stamp \<open>created_at\<close> and \<open>updated_at\<close> of the new
  user, and an admin update stamps \<open>updated_at\<close> of the user it changes, each with the
  time the handler read, which the database keeps to the millisecond.
\<close>

lemma register_stamps:
  assumes "find (matches [(''email'', BStr (uc_email payload))]) (user_docs w) = None"
    and "\<not> list_ex (\<lambda>e. map_of e ''_id'' = Some (BOid new_id)) (user_docs w)"
    and "pwd_hash x salt (uc_password payload) = Inr hashed"
  shows "\<exists>d. user_docs (snd (register x w now1 now2 now3 salt new_id payload)) = user_docs w @ [d]
           \<and> py_get d ''created_at'' = BDate (to_millis now1)
           \<and> py_get d ''updated_at'' = BDate (to_millis now2)"
  using assms
  by (simp add: register_def find_one_def insert_one_def encode_def called_def py_get_def
      first_error_strings)

lemma create_user_stamps:
  assumes "find (matches [(''email'', BStr (uc_email payload))]) (user_docs w) = None"
    and "\<not> list_ex (\<lambda>e. map_of e ''_id'' = Some (BOid new_id)) (user_docs w)"
    and "pwd_hash x salt (uc_password payload) = Inr hashed"
  shows "\<exists>d. user_docs (snd (create_user x now1 now2 salt new_id payload w)) = user_docs w @ [d]
           \<and> py_get d ''created_at'' = BDate (to_millis now1)
           \<and> py_get d ''updated_at'' = BDate (to_millis now2)"
  using assms
  by (simp add: create_user_def find_one_def insert_one_def encode_def called_def py_get_def
      first_error_strings)

lemma user_updates_keep_id:
  "map_of (py_update u (map (map_prod id stored_form)
             (dict_set ''updated_at'' (BDate now) (user_updates payload)))) ''_id''
     = map_of u ''_id''"
  by (cases "uu_name payload"; cases "uu_role payload"; cases "uu_systems payload")
    (simp_all add: user_updates_def map_of_dict_set)

lemma user_updates_stamp:
  "map_of (py_update u (map (map_prod id stored_form)
             (dict_set ''updated_at'' (BDate now) (user_updates payload)))) ''updated_at''
     = Some (BDate (to_millis now))"
  by (cases "uu_name payload"; cases "uu_role payload"; cases "uu_systems payload")
    (simp_all add: user_updates_def map_of_dict_set)

lemma update_user_stamps:
  assumes "ObjectId user_id = Inr oid"
    and "find (matches [(''_id'', BOid oid)]) (user_docs w) = Some u"
  shows "\<exists>u'. find (matches [(''_id'', BOid oid)]) (user_docs (snd (update_user now user_id payload w)))
             = Some u'
           \<and> py_get u' ''updated_at'' = BDate (to_millis now)"
proof -
  let ?q = "[(''_id'', BOid oid)]"
  let ?f = "\<lambda>d. py_update d (map (map_prod id stored_form)
                    (dict_set ''updated_at'' (BDate now) (user_updates payload)))"
  have docs: "user_docs (snd (update_user now user_id payload w))
      = update_first (matches ?q) ?f (user_docs w)"
    using assms
    by (simp add: update_user_def update_one_set_def encode_user_updates called_def)
  from assms(2) have "matches ?q u"
    by (auto dest: find_Some_iff [THEN iffD1])
  then have still: "matches ?q (?f u)"
    by (simp add: matches_id user_updates_keep_id)
  have "find (matches ?q) (user_docs (snd (update_user now user_id payload w))) = Some (?f u)"
    by (subst docs) (rule find_update_first, rule assms(2), rule still)
  moreover have "py_get (?f u) ''updated_at'' = BDate (to_millis now)"
    by (simp add: py_get_def user_updates_stamp)
  ultimately show ?thesis
    by blast
qed

text \<open>
  C8 on the assign request. The stored user of the sample installation was last written
  at \<open>t0\<close>. The request adds \<open>hospital\<close> to the user's systems, and \<open>updated_at\<close> is
  still \<open>t0\<close>: the handler reads no clock and stamps nothing.
\<close>

theorem assign_systems_leaves_updated_at:
  "fst (assign_systems uid0 [''hospital''] db0) = Inr (BDoc [(''assigned'', BBool True)])
   \<and> map (\<lambda>u. py_get u ''systems'') (user_docs db0) = [BList [BStr ''school'']]
   \<and> map (\<lambda>u. py_get u ''systems'') (user_docs (snd (assign_systems uid0 [''hospital''] db0)))
       = [BList [BStr ''school'', BStr ''hospital'']]
   \<and> map (\<lambda>u. py_get u ''updated_at'') (user_docs db0) = [BDate t0]
   \<and> map (\<lambda>u. py_get u ''updated_at'') (user_docs (snd (assign_systems uid0 [''hospital''] db0)))
       = [BDate t0]"
proof -
  have oid: "ObjectId uid0 = Inr uid0"
    by (rule ObjectId_is_oid) (simp add: is_oid_def uid0_def)
  have found: "find (matches [(''_id'', BOid uid0)]) (user_docs db0) = Some user0"
    by (simp add: db0_def user0_def matches_id)
  have sys: "map_of user0 ''systems'' = Some (BList [BStr ''school''])"
    by (simp add: user0_def)
  have res: "assign_systems uid0 [''hospital''] db0
      = (Inr (BDoc [(''assigned'', BBool True)]),
         put_docs UserColl
           (update_first (matches [(''_id'', BOid uid0)])
              (\<lambda>d. dict_set ''systems''
                     (BList (add_each [BStr ''school''] (map BStr [''hospital'']))) user0)
              (user_docs db0))
           (called UserColl UpdateOne db0))"
    by (rule assign_systems_existing) (rule oid, rule found, rule sys)
  show ?thesis
    by (simp add: res called_def) (simp add: db0_def user0_def matches_id py_get_def)
qed

section \<open>The scope of a query\<close>

text \<open>
  C1 on a filter that names a system. The caller is entitled to \<open>school\<close> and not to
  \<open>hospital\<close>, and sends a query to \<open>school/student\<close> with the filter
  \<open>{"system": "hospital", "type": "patient"}\<close>. The handler starts from the system and
  type of the path and then stores the items of the filter over them, so the database
  is asked for \<open>hospital/patient\<close>, and the answer is the patient of the hospital.
\<close>

theorem query_filter_replaces_scope:
  "access_denied user0 ''school'' = Inr False
   \<and> access_denied user0 ''hospital'' = Inr True
   \<and> py_update [(''system'', BStr ''school''), (''type'', BStr ''student'')]
        (to_doc (qp_filter cross_query))
       = [(''system'', BStr ''hospital''), (''type'', BStr ''patient'')]
   \<and> query_resources ''school'' ''student'' cross_query user0 db0
       = (Inr (BList [BDoc (patient0 @ [(''id'', BStr rid0)])]), called ResourceColl Find db0)
   \<and> py_get patient0 ''system'' = BStr ''hospital''"
proof -
  have q: "py_update [(''system'', BStr ''school''), (''type'', BStr ''student'')]
      (to_doc (qp_filter cross_query))
      = [(''system'', BStr ''hospital''), (''type'', BStr ''patient'')]"
    by (simp add: cross_query_def to_doc_def)
  have enc: "encode [(''system'', BStr ''hospital''), (''type'', BStr ''patient'')]
      = Inr [(''system'', BStr ''hospital''), (''type'', BStr ''patient'')]"
    by (simp add: encode_def)
  have plain: "plain_query [(''system'', BStr ''hospital''), (''type'', BStr ''patient'')]"
    by (simp add: plain_query_def operator_doc_def)
  have hits: "filter (matches [(''system'', BStr ''hospital''), (''type'', BStr ''patient'')])
      (resource_docs db0) = [patient0]"
    by (simp add: db0_def patient0_def student0_def matches_def field_matches_def)
  have ids: "with_id patient0 = Inr (patient0 @ [(''id'', BStr rid0)])"
    by (simp add: with_id_def str_id_def patient0_def)
  have page: "qp_skip cross_query = 0" "qp_limit cross_query = 50"
    by (simp_all add: cross_query_def)
  have school: "access_denied user0 ''school'' = Inr False"
    by (simp add: access_denied_def py_get_def py_get_default_def user0_def)
  have hospital: "access_denied user0 ''hospital'' = Inr True"
    by (simp add: access_denied_def py_get_def py_get_default_def user0_def)
  have "query_resources ''school'' ''student'' cross_query user0 db0
      = (Inr (BList [BDoc (patient0 @ [(''id'', BStr rid0)])]), called ResourceColl Find db0)"
    using page by (simp add: query_resources_def school q plain find_skip_limit_def enc hits ids)
  moreover have "py_get patient0 ''system'' = BStr ''hospital''"
    by (simp add: py_get_def patient0_def)
  ultimately show ?thesis
    using school hospital q by blast
qed

section \<open>The caller of a request\<close>

text \<open>
  C2, as the code has it. The token of the request decodes, its subject is the id of a
  stored user. The caller that the guards see is the document stored at the time of the
  request, read by one \<open>find_one\<close> on the user collection, with \<open>id\<close> added and with
  \<open>role\<close> replaced by the role of the token: the caller's systems are the stored ones,
  the caller's role is the token's.
\<close>

theorem caller_is_stored_user_with_token_role:
  assumes "take 7 a = ''Bearer ''"
    and "jwt_decode x now (bearer_token a) = Some payload"
    and "py_get payload ''sub'' = BStr s"
    and "ObjectId s = Inr oid"
    and "find (matches [(''_id'', BOid oid)]) (user_docs w) = Some stored"
  shows "get_current_user x w now (Some a)
           = (Inr (dict_set ''role'' (py_get payload ''role'') (dict_set ''id'' (BStr oid) stored)),
              called UserColl FindOne w)
       \<and> py_get (dict_set ''role'' (py_get payload ''role'') (dict_set ''id'' (BStr oid) stored))
            ''systems'' = py_get stored ''systems''
       \<and> py_get (dict_set ''role'' (py_get payload ''role'') (dict_set ''id'' (BStr oid) stored))
            ''role'' = py_get payload ''role''"
proof -
  from assms(5) have "matches [(''_id'', BOid oid)] stored"
    by (auto dest: find_Some_iff [THEN iffD1])
  then have id: "map_of stored ''_id'' = Some (BOid oid)"
    by (simp add: matches_id)
  then have "stored \<noteq> []"
    by auto
  moreover have "with_id stored = Inr (dict_set ''id'' (BStr oid) stored)"
    using id by (simp add: with_id_def str_id_def)
  ultimately have "get_current_user x w now (Some a)
      = (Inr (dict_set ''role'' (py_get payload ''role'') (dict_set ''id'' (BStr oid) stored)),
         called UserColl FindOne w)"
    using assms by (simp add: get_current_user_def find_one_def)
  then show ?thesis
    by (simp add: py_get_dict_set)
qed

theorem caller_is_stored_user_with_token_role_witness:
  "take 7 ''Bearer admin-token'' = ''Bearer ''
   \<and> jwt_decode ext0 t1 (bearer_token ''Bearer admin-token'')
       = Some [(''sub'', BStr uid0), (''role'', BStr ''admin'')]
   \<and> py_get [(''sub'', BStr uid0), (''role'', BStr ''admin'')] ''sub'' = BStr uid0
   \<and> ObjectId uid0 = Inr uid0
   \<and> find (matches [(''_id'', BOid uid0)]) (user_docs db0) = Some user0
   \<and> get_current_user ext0 db0 t1 (Some ''Bearer admin-token'')
       = (Inr (dict_set ''role'' (py_get [(''sub'', BStr uid0), (''role'', BStr ''admin'')] ''role'')
                (dict_set ''id'' (BStr uid0) user0)),
          called UserColl FindOne db0)
   \<and> py_get (dict_set ''role'' (py_get [(''sub'', BStr uid0), (''role'', BStr ''admin'')] ''role'')
                (dict_set ''id'' (BStr uid0) user0)) ''systems''
       = py_get user0 ''systems''
   \<and> py_get (dict_set ''role'' (py_get [(''sub'', BStr uid0), (''role'', BStr ''admin'')] ''role'')
                (dict_set ''id'' (BStr uid0) user0)) ''role''
       = py_get [(''sub'', BStr uid0), (''role'', BStr ''admin'')] ''role''
   \<and> py_get user0 ''role'' = BStr ''user''
   \<and> py_get [(''sub'', BStr uid0), (''role'', BStr ''admin'')] ''role'' = BStr ''admin''"
proof -
  have a: "take 7 ''Bearer admin-token'' = ''Bearer ''"
    by simp
  have b: "jwt_decode ext0 t1 (bearer_token ''Bearer admin-token'')
      = Some [(''sub'', BStr uid0), (''role'', BStr ''admin'')]"
    by (simp add: ext0_def bearer_token_def)
  have c: "py_get [(''sub'', BStr uid0), (''role'', BStr ''admin'')] ''sub'' = BStr uid0"
    by (simp add: py_get_def)
  have d: "ObjectId uid0 = Inr uid0"
    by (rule ObjectId_is_oid) (simp add: is_oid_def uid0_def)
  have e: "find (matches [(''_id'', BOid uid0)]) (user_docs db0) = Some user0"
    by (simp add: db0_def user0_def matches_id)
  have f: "py_get user0 ''role'' = BStr ''user''"
    by (simp add: py_get_def user0_def)
  have g: "py_get [(''sub'', BStr uid0), (''role'', BStr ''admin'')] ''role'' = BStr ''admin''"
    by (simp add: py_get_def)
  show ?thesis
    using caller_is_stored_user_with_token_role [OF a b c d e] a b c d e f g
    by blast
qed

text \<open>
  The stored role of the user is \<open>user\<close>; a token issued for the role \<open>admin\<close> still
  passes the admin guard, and the admin handler runs.
\<close>

theorem token_role_overrides_stored_role:
  "map (\<lambda>u. py_get u ''role'') (user_docs db0) = [BStr ''user'']
   \<and> fst (depends_require_admin ext0 db0 t1 (Some ''Bearer admin-token'')
            (assign_systems uid0 [''hospital'']))
       = Inr (BDoc [(''assigned'', BBool True)])"
proof -
  have oid: "ObjectId uid0 = Inr uid0"
    by (rule ObjectId_is_oid) (simp add: is_oid_def uid0_def)
  let ?w = "called UserColl FindOne db0"
  have gcu: "get_current_user ext0 db0 t1 (Some ''Bearer admin-token'')
      = (Inr (dict_set ''role'' (BStr ''admin'') (dict_set ''id'' (BStr uid0) user0)), ?w)"
    using oid
    by (simp add: get_current_user_def ext0_def bearer_token_def py_get_def find_one_def db0_def
        matches_id user0_def with_id_def str_id_def)
  have adm: "require_admin (dict_set ''role'' (BStr ''admin'') (dict_set ''id'' (BStr uid0) user0))
      = Inr (dict_set ''role'' (BStr ''admin'') (dict_set ''id'' (BStr uid0) user0))"
    by (simp add: require_admin_def py_get_dict_set)
  have found: "find (matches [(''_id'', BOid uid0)]) (user_docs ?w) = Some user0"
    by (simp add: called_def db0_def user0_def matches_id)
  have sys: "map_of user0 ''systems'' = Some (BList [BStr ''school''])"
    by (simp add: user0_def)
  have "fst (assign_systems uid0 [''hospital''] ?w) = Inr (BDoc [(''assigned'', BBool True)])"
    by (subst assign_systems_existing, rule oid, rule found, rule sys) simp
  moreover have "map (\<lambda>u. py_get u ''role'') (user_docs db0) = [BStr ''user'']"
    by (simp add: db0_def user0_def py_get_def)
  ultimately show ?thesis
    by (simp add: depends_require_admin_def depends_current_user_def gcu adm)
qed

end
